theory Spec2Isabelle
  imports Complex_Main
begin

section \<open>JavaScript numbers\<close>

text \<open>
  The colour-space engine is JavaScript: every number is a Number. A Number is modelled
  as a real extended by the two infinities and NaN. The arithmetic is exact: the rounding
  of binary64 arithmetic and of stores into a Float32Array is not modelled, and there is
  no negative zero. The value \<open>undefined\<close>, which an out-of-range read of an array
  yields, only ever flows into arithmetic, comparisons and typed-array stores in this
  code, where it behaves as NaN; it is modelled as NaN.
\<close>

datatype jsnum = NaN | NInf | Num real | PInf

text \<open>The Number of a natural and of an integer.\<close>

definition jn :: "nat \<Rightarrow> jsnum" where
  "jn n = Num (real n)"

definition ji :: "int \<Rightarrow> jsnum" where
  "ji n = Num (real_of_int n)"

text \<open>
  The operators \<open>+\<close>, \<open>-\<close>, \<open>*\<close>, \<open>/\<close>, \<open><\<close> and \<open><=\<close> of the language, so
  that the definitions below read as the source does. They are only notation: no
  algebraic law is assumed of them. Every comparison with NaN is false.
\<close>

text \<open>The sign of an infinite product or quotient: \<open>inf_of True\<close> is \<open>+Infinity\<close>.\<close>

definition inf_of :: "bool \<Rightarrow> jsnum" where
  "inf_of pos = (if pos then PInf else NInf)"

instantiation jsnum :: "{plus, minus, uminus, times, inverse, ord}"
begin

fun uminus_jsnum :: "jsnum \<Rightarrow> jsnum" where
  "uminus_jsnum NaN = NaN"
| "uminus_jsnum NInf = PInf"
| "uminus_jsnum PInf = NInf"
| "uminus_jsnum (Num a) = Num (- a)"

fun plus_jsnum :: "jsnum \<Rightarrow> jsnum \<Rightarrow> jsnum" where
  "plus_jsnum NaN _ = NaN"
| "plus_jsnum _ NaN = NaN"
| "plus_jsnum PInf NInf = NaN"
| "plus_jsnum NInf PInf = NaN"
| "plus_jsnum PInf _ = PInf"
| "plus_jsnum _ PInf = PInf"
| "plus_jsnum NInf _ = NInf"
| "plus_jsnum _ NInf = NInf"
| "plus_jsnum (Num a) (Num b) = Num (a + b)"

definition minus_jsnum :: "jsnum \<Rightarrow> jsnum \<Rightarrow> jsnum" where
  "minus_jsnum a b = a + (- b)"

fun times_jsnum :: "jsnum \<Rightarrow> jsnum \<Rightarrow> jsnum" where
  "times_jsnum NaN _ = NaN"
| "times_jsnum _ NaN = NaN"
| "times_jsnum (Num a) (Num b) = Num (a * b)"
| "times_jsnum (Num a) PInf = (if a = 0 then NaN else inf_of (0 < a))"
| "times_jsnum (Num a) NInf = (if a = 0 then NaN else inf_of (a < 0))"
| "times_jsnum PInf (Num b) = (if b = 0 then NaN else inf_of (0 < b))"
| "times_jsnum NInf (Num b) = (if b = 0 then NaN else inf_of (b < 0))"
| "times_jsnum PInf PInf = PInf"
| "times_jsnum NInf NInf = PInf"
| "times_jsnum PInf NInf = NInf"
| "times_jsnum NInf PInf = NInf"

fun divide_jsnum :: "jsnum \<Rightarrow> jsnum \<Rightarrow> jsnum" where
  "divide_jsnum NaN _ = NaN"
| "divide_jsnum _ NaN = NaN"
| "divide_jsnum (Num a) (Num b) =
     (if b \<noteq> 0 then Num (a / b) else if a = 0 then NaN else inf_of (0 < a))"
| "divide_jsnum (Num a) PInf = Num 0"
| "divide_jsnum (Num a) NInf = Num 0"
| "divide_jsnum PInf (Num b) = inf_of (0 \<le> b)"
| "divide_jsnum NInf (Num b) = inf_of (b < 0)"
| "divide_jsnum PInf PInf = NaN"
| "divide_jsnum PInf NInf = NaN"
| "divide_jsnum NInf PInf = NaN"
| "divide_jsnum NInf NInf = NaN"

definition inverse_jsnum :: "jsnum \<Rightarrow> jsnum" where
  "inverse_jsnum a = divide (Num 1) a"

fun less_jsnum :: "jsnum \<Rightarrow> jsnum \<Rightarrow> bool" where
  "less_jsnum NaN _ = False"
| "less_jsnum _ NaN = False"
| "less_jsnum _ NInf = False"
| "less_jsnum NInf _ = True"
| "less_jsnum PInf _ = False"
| "less_jsnum (Num a) PInf = True"
| "less_jsnum (Num a) (Num b) = (a < b)"

definition less_eq_jsnum :: "jsnum \<Rightarrow> jsnum \<Rightarrow> bool" where
  "less_eq_jsnum a b = (a < b \<or> (a \<noteq> NaN \<and> a = b))"

instance ..

end

text \<open>Strict equality \<open>===\<close> of two Numbers: NaN is not equal to itself.\<close>

definition seq :: "jsnum \<Rightarrow> jsnum \<Rightarrow> bool" where
  "seq a b = (a \<noteq> NaN \<and> a = b)"

text \<open>\<open>Math.max\<close>, \<open>Math.min\<close>, \<open>Math.floor\<close>, \<open>Math.sqrt\<close> and \<open>Math.pow\<close>.\<close>

definition Math_max :: "jsnum \<Rightarrow> jsnum \<Rightarrow> jsnum" where
  "Math_max a b = (if a = NaN \<or> b = NaN then NaN else if a < b then b else a)"

definition Math_min :: "jsnum \<Rightarrow> jsnum \<Rightarrow> jsnum" where
  "Math_min a b = (if a = NaN \<or> b = NaN then NaN else if b < a then b else a)"

fun Math_floor :: "jsnum \<Rightarrow> jsnum" where
  "Math_floor (Num a) = Num (of_int \<lfloor>a\<rfloor>)"
| "Math_floor x = x"

fun Math_sqrt :: "jsnum \<Rightarrow> jsnum" where
  "Math_sqrt (Num a) = (if a < 0 then NaN else Num (sqrt a))"
| "Math_sqrt PInf = PInf"
| "Math_sqrt _ = NaN"

definition is_int :: "real \<Rightarrow> bool" where
  "is_int a = (a = of_int \<lfloor>a\<rfloor>)"

fun Math_pow :: "jsnum \<Rightarrow> jsnum \<Rightarrow> jsnum" where
  "Math_pow _ NaN = NaN"
| "Math_pow NaN (Num e) = (if e = 0 then Num 1 else NaN)"
| "Math_pow NaN _ = NaN"
| "Math_pow PInf (Num e) = (if e = 0 then Num 1 else if 0 < e then PInf else Num 0)"
| "Math_pow PInf PInf = PInf"
| "Math_pow PInf NInf = Num 0"
| "Math_pow NInf (Num e) =
     (if e = 0 then Num 1
      else if 0 < e then (if is_int e \<and> odd \<lfloor>e\<rfloor> then NInf else PInf)
      else Num 0)"
| "Math_pow NInf PInf = PInf"
| "Math_pow NInf NInf = Num 0"
| "Math_pow (Num a) PInf =
     (if 1 < \<bar>a\<bar> then PInf else if \<bar>a\<bar> = 1 then NaN else Num 0)"
| "Math_pow (Num a) NInf =
     (if 1 < \<bar>a\<bar> then Num 0 else if \<bar>a\<bar> = 1 then NaN else PInf)"
| "Math_pow (Num a) (Num e) =
     (if e = 0 then Num 1
      else if a = 0 then (if 0 < e then Num 0 else PInf)
      else if 0 < a then Num (a powr e)
      else if is_int e then Num (power_int a \<lfloor>e\<rfloor>)
      else NaN)"

subsection \<open>Integer conversions\<close>

text \<open>The store conversion of a \<open>Uint8ClampedArray\<close> (\<open>ToUint8Clamp\<close>): NaN becomes 0,
  the value is clamped to 0..255 and rounded to the nearest integer, ties to even.\<close>

definition round_half_even :: "real \<Rightarrow> int" where
  "round_half_even a =
     (let f = \<lfloor>a\<rfloor> in
      if a - of_int f < 1 / 2 then f
      else if 1 / 2 < a - of_int f then f + 1
      else if even f then f else f + 1)"

fun toUint8Clamp :: "jsnum \<Rightarrow> nat" where
  "toUint8Clamp NaN = 0"
| "toUint8Clamp NInf = 0"
| "toUint8Clamp PInf = 255"
| "toUint8Clamp (Num a) =
     (if a \<le> 0 then 0 else if 255 \<le> a then 255 else nat (round_half_even a))"

text \<open>Truncation towards zero, and the modular store conversions of \<open>Uint8Array\<close> and
  \<open>Uint16Array\<close> and the conversion \<open>x | 0\<close> to a signed 32-bit integer.\<close>

definition trunc :: "real \<Rightarrow> int" where
  "trunc a = (if 0 \<le> a then \<lfloor>a\<rfloor> else \<lceil>a\<rceil>)"

fun toUintN :: "nat \<Rightarrow> jsnum \<Rightarrow> nat" where
  "toUintN w (Num a) = nat (trunc a mod 2 ^ w)"
| "toUintN w _ = 0"

fun toInt32 :: "jsnum \<Rightarrow> int" where
  "toInt32 (Num a) =
     (let m = trunc a mod 2 ^ 32 in if 2 ^ 31 \<le> m then m - 2 ^ 32 else m)"
| "toInt32 _ = 0"

text \<open>\<open>1 << bits\<close>: the shift count is taken modulo 32 and the result is a signed
  32-bit integer.\<close>

definition shl1 :: "nat \<Rightarrow> int" where
  "shl1 bits = (if bits mod 32 = 31 then - (2 ^ 31) else 2 ^ (bits mod 32))"

section \<open>Arrays\<close>

text \<open>
  An integer typed array (\<open>Uint8Array\<close>, \<open>Uint16Array\<close>, \<open>Uint8ClampedArray\<close>) is a list
  of naturals, an array of numbers (a plain array or a \<open>Float32Array\<close>) a list of
  \<open>jsnum\<close>. An index is a Number: only a non-negative integer below the length
  addresses an element. A read elsewhere yields \<open>undefined\<close>, a store elsewhere is
  ignored.
\<close>

fun as_index :: "jsnum \<Rightarrow> nat option" where
  "as_index (Num a) = (if 0 \<le> a \<and> is_int a then Some (nat \<lfloor>a\<rfloor>) else None)"
| "as_index _ = None"

definition rd :: "nat list \<Rightarrow> jsnum \<Rightarrow> jsnum" where
  "rd xs i = (case as_index i of
                Some k \<Rightarrow> if k < length xs then jn (xs ! k) else NaN
              | None \<Rightarrow> NaN)"

definition rdf :: "jsnum list \<Rightarrow> jsnum \<Rightarrow> jsnum" where
  "rdf xs i = (case as_index i of
                 Some k \<Rightarrow> if k < length xs then xs ! k else NaN
               | None \<Rightarrow> NaN)"

text \<open>A store into a \<open>Uint8ClampedArray\<close>.\<close>

definition wr :: "nat list \<Rightarrow> jsnum \<Rightarrow> jsnum \<Rightarrow> nat list" where
  "wr xs i v = (case as_index i of
                  Some k \<Rightarrow> if k < length xs then xs[k := toUint8Clamp v] else xs
                | None \<Rightarrow> xs)"

section \<open>Diagnostics and errors\<close>

text \<open>\<open>warn\<close> and \<open>info\<close> append to a log; a thrown exception is a value.\<close>

datatype log_entry = Warn string | Info string

datatype error =
    FormatError string
  | Unreachable string
  | RangeError
  | TypeError
  | StackOverflow

section \<open>The default decode map\<close>

text \<open>
  \<open>ColorSpace.isDefaultDecode(decode, n)\<close>. The decode map is \<open>None\<close> when the argument is
  not an array. An element that is not a number is never strictly equal to 0 or 1, as
  NaN is not.
\<close>

function isDefaultDecode_loop :: "jsnum list \<Rightarrow> nat \<Rightarrow> nat \<Rightarrow> bool" where
  "isDefaultDecode_loop decode i ii =
     (if i < ii then
        (if \<not> seq (rdf decode (jn i)) (jn 0) \<or> \<not> seq (rdf decode (jn (i + 1))) (jn 1)
         then False
         else isDefaultDecode_loop decode (i + 2) ii)
      else True)"
  by pat_completeness auto
termination
  by (relation "measure (\<lambda>(decode, i, ii). ii - i)") auto

declare isDefaultDecode_loop.simps [simp del]

definition isDefaultDecode :: "jsnum list option \<Rightarrow> nat \<Rightarrow> bool \<times> log_entry list" where
  "isDefaultDecode decode n =
     (case decode of
        None \<Rightarrow> (True, [])
      | Some d \<Rightarrow>
          if n * 2 \<noteq> length d
          then (True, [Warn ''The decode map is not the correct length''])
          else (isDefaultDecode_loop d 0 (length d), []))"

text \<open>\<open>array.subarray(begin, end)\<close> of a typed array: both positions are truncated to
  integers, a negative one counts from the end, and both are clamped to the array.\<close>

definition rel_index :: "nat \<Rightarrow> jsnum \<Rightarrow> nat" where
  "rel_index len x =
     (case x of
        NaN \<Rightarrow> 0
      | NInf \<Rightarrow> 0
      | PInf \<Rightarrow> len
      | Num a \<Rightarrow> if trunc a < 0 then nat (max (int len + trunc a) 0)
                 else min (nat (trunc a)) len)"

definition subarray :: "nat list \<Rightarrow> jsnum \<Rightarrow> jsnum \<Rightarrow> nat list" where
  "subarray xs b e =
     (let beginIndex = rel_index (length xs) b;
          endIndex = rel_index (length xs) e
      in take (endIndex - beginIndex) (drop beginIndex xs))"

text \<open>\<open>dest.set(source, offset)\<close> on a \<open>Uint8ClampedArray\<close> with a typed array as
  source: a \<open>RangeError\<close> when the offset is negative or the source does not fit,
  otherwise every element is converted and stored.\<close>

definition ta_set :: "nat list \<Rightarrow> nat list \<Rightarrow> jsnum \<Rightarrow> nat list \<times> error option" where
  "ta_set dest source offset =
     (case offset of
        NInf \<Rightarrow> (dest, Some RangeError)
      | PInf \<Rightarrow> (dest, Some RangeError)
      | _ \<Rightarrow>
         (let t = (case offset of Num a \<Rightarrow> trunc a | _ \<Rightarrow> 0) in
          if t < 0 \<or> length dest < length source + nat t then (dest, Some RangeError)
          else (take (nat t) dest @ map (\<lambda>v. toUint8Clamp (jn v)) source
                  @ drop (nat t + length source) dest, None)))"

section \<open>Colour spaces\<close>

text \<open>
  The classes that extend \<open>ColorSpace\<close> are the constructors of one datatype; a method
  is a function that dispatches on the constructor, and a method that a class does not
  override takes the base class's body. The fields of an instance are the arguments
  of its constructor: \<open>IndexedCS base highVal lookup\<close>,
  \<open>AlternateCS ncomps base tintFn tmpBuf\<close> (\<open>ncomps\<close> is the instance's \<open>numComps\<close>) and \<open>PatternCS base\<close>. The tint function of an \<open>AlternateCS\<close> is a callback
  \<open>tintFn(src, srcOffset, dest, destOffset)\<close> that is always called with \<open>destOffset = 0\<close>:
  it is modelled by the list of values it writes to \<open>dest\<close>, from index 0 on.
\<close>

type_synonym tintFn = "jsnum list \<Rightarrow> jsnum \<Rightarrow> jsnum list"

record CalGray =
  cg_XW :: jsnum
  cg_YW :: jsnum
  cg_ZW :: jsnum
  cg_XB :: jsnum
  cg_YB :: jsnum
  cg_ZB :: jsnum
  cg_G :: jsnum

record CalRGB =
  whitePoint :: "jsnum list"
  blackPoint :: "jsnum list"
  GR :: jsnum
  GG :: jsnum
  GB :: jsnum
  MXA :: jsnum
  MYA :: jsnum
  MZA :: jsnum
  MXB :: jsnum
  MYB :: jsnum
  MZB :: jsnum
  MXC :: jsnum
  MYC :: jsnum
  MZC :: jsnum

record Lab =
  XW :: jsnum
  YW :: jsnum
  ZW :: jsnum
  amin :: jsnum
  amax :: jsnum
  bmin :: jsnum
  bmax :: jsnum
  XB :: jsnum
  YB :: jsnum
  ZB :: jsnum

datatype ColorSpace =
    DeviceGrayCS
  | DeviceRgbCS
  | DeviceCmykCS
  | CalGrayCS CalGray
  | CalRGBCS CalRGB
  | LabCS Lab
  | IndexedCS ColorSpace jsnum "nat list"
  | AlternateCS nat ColorSpace tintFn "jsnum list"
  | PatternCS "ColorSpace option"

fun name :: "ColorSpace \<Rightarrow> string" where
  "name DeviceGrayCS = ''DeviceGray''"
| "name DeviceRgbCS = ''DeviceRGB''"
| "name DeviceCmykCS = ''DeviceCMYK''"
| "name (CalGrayCS _) = ''CalGray''"
| "name (CalRGBCS _) = ''CalRGB''"
| "name (LabCS _) = ''Lab''"
| "name (IndexedCS _ _ _) = ''Indexed''"
| "name (AlternateCS _ _ _ _) = ''Alternate''"
| "name (PatternCS _) = ''Pattern''"

text \<open>\<open>numComps\<close> is \<open>null\<close> for a pattern; \<open>null\<close> is 0 in arithmetic.\<close>

fun numComps :: "ColorSpace \<Rightarrow> nat option" where
  "numComps DeviceGrayCS = Some 1"
| "numComps DeviceRgbCS = Some 3"
| "numComps DeviceCmykCS = Some 4"
| "numComps (CalGrayCS _) = Some 1"
| "numComps (CalRGBCS _) = Some 3"
| "numComps (LabCS _) = Some 3"
| "numComps (IndexedCS _ _ _) = Some 1"
| "numComps (AlternateCS n _ _ _) = Some n"
| "numComps (PatternCS _) = None"

definition null_to_0 :: "nat option \<Rightarrow> nat" where
  "null_to_0 n = (case n of None \<Rightarrow> 0 | Some k \<Rightarrow> k)"

fun isPassthrough :: "ColorSpace \<Rightarrow> nat \<Rightarrow> bool" where
  "isPassthrough DeviceRgbCS bits = (bits = 8)"
| "isPassthrough _ bits = False"

fun usesZeroToOneRange :: "ColorSpace \<Rightarrow> bool" where
  "usesZeroToOneRange (LabCS _) = False"
| "usesZeroToOneRange _ = True"

subsection \<open>DeviceGray\<close>

definition DeviceGrayCS_getRgbItem ::
  "jsnum list \<Rightarrow> jsnum \<Rightarrow> nat list \<Rightarrow> jsnum \<Rightarrow> nat list" where
  "DeviceGrayCS_getRgbItem src srcOffset dest destOffset =
     (let c = rdf src srcOffset * jn 255;
          dest = wr dest (destOffset + jn 2) c;
          dest = wr dest (destOffset + jn 1) c
      in wr dest destOffset c)"

text \<open>The loop \<open>for (i = 0; i < count; ++i)\<close> recurses on the iterations that remain.\<close>

fun DeviceGrayCS_loop ::
  "nat \<Rightarrow> jsnum \<Rightarrow> nat list \<Rightarrow> jsnum \<Rightarrow> nat list \<Rightarrow> jsnum \<Rightarrow> nat \<Rightarrow> nat list" where
  "DeviceGrayCS_loop 0 scale src j dest q alpha01 = dest"
| "DeviceGrayCS_loop (Suc n) scale src j dest q alpha01 =
     (let c = scale * rd src j;
          dest = wr dest q c;
          dest = wr dest (q + jn 1) c;
          dest = wr dest (q + jn 2) c
      in DeviceGrayCS_loop n scale src (j + jn 1) dest (q + jn 3 + jn alpha01) alpha01)"

definition DeviceGrayCS_getRgbBuffer ::
  "nat list \<Rightarrow> jsnum \<Rightarrow> nat \<Rightarrow> nat list \<Rightarrow> jsnum \<Rightarrow> nat \<Rightarrow> nat \<Rightarrow> nat list" where
  "DeviceGrayCS_getRgbBuffer src srcOffset count dest destOffset bits alpha01 =
     (let scale = jn 255 / (ji (shl1 bits) - jn 1)
      in DeviceGrayCS_loop count scale src srcOffset dest destOffset alpha01)"

subsection \<open>DeviceRGB\<close>

definition DeviceRgbCS_getRgbItem ::
  "jsnum list \<Rightarrow> jsnum \<Rightarrow> nat list \<Rightarrow> jsnum \<Rightarrow> nat list" where
  "DeviceRgbCS_getRgbItem src srcOffset dest destOffset =
     (let dest = wr dest destOffset (rdf src srcOffset * jn 255);
          dest = wr dest (destOffset + jn 1) (rdf src (srcOffset + jn 1) * jn 255)
      in wr dest (destOffset + jn 2) (rdf src (srcOffset + jn 2) * jn 255))"

fun DeviceRgbCS_loop ::
  "nat \<Rightarrow> jsnum \<Rightarrow> nat list \<Rightarrow> jsnum \<Rightarrow> nat list \<Rightarrow> jsnum \<Rightarrow> nat \<Rightarrow> nat list" where
  "DeviceRgbCS_loop 0 scale src j dest q alpha01 = dest"
| "DeviceRgbCS_loop (Suc n) scale src j dest q alpha01 =
     (let dest = wr dest q (scale * rd src j);
          dest = wr dest (q + jn 1) (scale * rd src (j + jn 1));
          dest = wr dest (q + jn 2) (scale * rd src (j + jn 2))
      in DeviceRgbCS_loop n scale src (j + jn 3) dest (q + jn 3 + jn alpha01) alpha01)"

definition DeviceRgbCS_getRgbBuffer ::
  "nat list \<Rightarrow> jsnum \<Rightarrow> nat \<Rightarrow> nat list \<Rightarrow> jsnum \<Rightarrow> nat \<Rightarrow> nat \<Rightarrow> nat list \<times> error option" where
  "DeviceRgbCS_getRgbBuffer src srcOffset count dest destOffset bits alpha01 =
     (if bits = 8 \<and> alpha01 = 0
      then ta_set dest (subarray src srcOffset (srcOffset + jn (count * 3))) destOffset
      else
        (let scale = jn 255 / (ji (shl1 bits) - jn 1)
         in (DeviceRgbCS_loop count scale src srcOffset dest destOffset alpha01, None)))"

subsection \<open>DeviceCMYK\<close>

text \<open>\<open>convertToRgb\<close> reads its samples from either kind of array; it takes the array as
  a list of Numbers.\<close>

definition DeviceCmykCS_convertToRgb ::
  "jsnum list \<Rightarrow> jsnum \<Rightarrow> jsnum \<Rightarrow> nat list \<Rightarrow> jsnum \<Rightarrow> nat list" where
  "DeviceCmykCS_convertToRgb src srcOffset srcScale dest destOffset =
     (let c = rdf src srcOffset * srcScale;
          m = rdf src (srcOffset + jn 1) * srcScale;
          y = rdf src (srcOffset + jn 2) * srcScale;
          k = rdf src (srcOffset + jn 3) * srcScale;
          dest = wr dest destOffset (jn 255 +
            c * (Num (-4.387332384609988) * c + Num 54.48615194189176 * m +
                 Num 18.82290502165302 * y + Num 212.25662451639585 * k +
                 Num (-285.2331026137004)) +
            m * (Num 1.7149763477362134 * m - Num 5.6096736904047315 * y +
                 Num (-17.873870861415444) * k - Num 5.497006427196366) +
            y * (Num (-2.5217340131683033) * y - Num 21.248923337353073 * k +
                 Num 17.5119270841813) +
            k * (Num (-21.86122147463605) * k - Num 189.48180835922747));
          dest = wr dest (destOffset + jn 1) (jn 255 +
            c * (Num 8.841041422036149 * c + Num 60.118027045597366 * m +
                 Num 6.871425592049007 * y + Num 31.159100130055922 * k +
                 Num (-79.2970844816548)) +
            m * (Num (-15.310361306967817) * m + Num 17.575251261109482 * y +
                 Num 131.35250912493976 * k - Num 190.9453302588951) +
            y * (Num 4.444339102852739 * y + Num 9.8632861493405 * k -
                 Num 24.86741582555878) +
            k * (Num (-20.737325471181034) * k - Num 187.80453709719578))
      in wr dest (destOffset + jn 2) (jn 255 +
            c * (Num 0.8842522430003296 * c + Num 8.078677503112928 * m +
                 Num 30.89978309703729 * y - Num 0.23883238689178934 * k +
                 Num (-14.183576799673286)) +
            m * (Num 10.49593273432072 * m + Num 63.02378494754052 * y +
                 Num 50.606957656360734 * k - Num 112.23884253719248) +
            y * (Num 0.03296041114873217 * y + Num 115.60384449646641 * k +
                 Num (-193.58209356861505)) +
            k * (Num (-22.33816807309886) * k - Num 180.12613974708367)))"

fun DeviceCmykCS_loop ::
  "nat \<Rightarrow> jsnum \<Rightarrow> nat list \<Rightarrow> jsnum \<Rightarrow> nat list \<Rightarrow> jsnum \<Rightarrow> nat \<Rightarrow> nat list" where
  "DeviceCmykCS_loop 0 scale src srcOffset dest destOffset alpha01 = dest"
| "DeviceCmykCS_loop (Suc n) scale src srcOffset dest destOffset alpha01 =
     (let dest = DeviceCmykCS_convertToRgb (map jn src) srcOffset scale dest destOffset
      in DeviceCmykCS_loop n scale src (srcOffset + jn 4) dest
           (destOffset + jn (3 + alpha01)) alpha01)"

definition DeviceCmykCS_getRgbBuffer ::
  "nat list \<Rightarrow> jsnum \<Rightarrow> nat \<Rightarrow> nat list \<Rightarrow> jsnum \<Rightarrow> nat \<Rightarrow> nat \<Rightarrow> nat list" where
  "DeviceCmykCS_getRgbBuffer src srcOffset count dest destOffset bits alpha01 =
     (let scale = jn 1 / (ji (shl1 bits) - jn 1)
      in DeviceCmykCS_loop count scale src srcOffset dest destOffset alpha01)"

subsection \<open>CalGray\<close>

text \<open>An element of an array of Numbers at a literal index.\<close>

definition el :: "jsnum list \<Rightarrow> nat \<Rightarrow> jsnum" where
  "el xs k = rdf xs (jn k)"

definition write3 :: "nat list \<Rightarrow> jsnum \<Rightarrow> jsnum \<Rightarrow> jsnum \<Rightarrow> jsnum \<Rightarrow> nat list" where
  "write3 dest destOffset r g b =
     (let dest = wr dest destOffset r;
          dest = wr dest (destOffset + jn 1) g
      in wr dest (destOffset + jn 2) b)"

definition CalGrayCS_convertToRgb ::
  "CalGray \<Rightarrow> jsnum list \<Rightarrow> jsnum \<Rightarrow> nat list \<Rightarrow> jsnum \<Rightarrow> jsnum \<Rightarrow> nat list" where
  "CalGrayCS_convertToRgb cs src srcOffset dest destOffset scale =
     (let A = rdf src srcOffset * scale;
          AG = Math_pow A (cg_G cs);
          L = cg_YW cs * AG;
          val = Math_max (Num 295.8 * Math_pow L (Num 0.333333333333333333) - Num 40.8) (jn 0)
      in write3 dest destOffset val val val)"

fun CalGrayCS_loop ::
  "nat \<Rightarrow> CalGray \<Rightarrow> jsnum \<Rightarrow> nat list \<Rightarrow> jsnum \<Rightarrow> nat list \<Rightarrow> jsnum \<Rightarrow> nat \<Rightarrow> nat list" where
  "CalGrayCS_loop 0 cs scale src srcOffset dest destOffset alpha01 = dest"
| "CalGrayCS_loop (Suc n) cs scale src srcOffset dest destOffset alpha01 =
     (let dest = CalGrayCS_convertToRgb cs (map jn src) srcOffset dest destOffset scale
      in CalGrayCS_loop n cs scale src (srcOffset + jn 1) dest
           (destOffset + jn (3 + alpha01)) alpha01)"

definition CalGrayCS_getRgbBuffer ::
  "CalGray \<Rightarrow> nat list \<Rightarrow> jsnum \<Rightarrow> nat \<Rightarrow> nat list \<Rightarrow> jsnum \<Rightarrow> nat \<Rightarrow> nat \<Rightarrow> nat list" where
  "CalGrayCS_getRgbBuffer cs src srcOffset count dest destOffset bits alpha01 =
     (let scale = jn 1 / (ji (shl1 bits) - jn 1)
      in CalGrayCS_loop count cs scale src srcOffset dest destOffset alpha01)"

subsection \<open>CalRGB\<close>

text \<open>The matrices are \<open>Float32Array\<close>s in the source; the three temporary vectors of the
  closure are written in full before they are read, and no call passes the same vector
  as input and as result, so each helper returns its result vector.\<close>

definition BRADFORD_SCALE_MATRIX :: "jsnum list" where
  "BRADFORD_SCALE_MATRIX =
     [Num 0.8951, Num 0.2664, Num (-0.1614),
      Num (-0.7502), Num 1.7135, Num 0.0367,
      Num 0.0389, Num (-0.0685), Num 1.0296]"

definition BRADFORD_SCALE_INVERSE_MATRIX :: "jsnum list" where
  "BRADFORD_SCALE_INVERSE_MATRIX =
     [Num 0.9869929, Num (-0.1470543), Num 0.1599627,
      Num 0.4323053, Num 0.5183603, Num 0.0492912,
      Num (-0.0085287), Num 0.0400428, Num 0.9684867]"

definition SRGB_D65_XYZ_TO_RGB_MATRIX :: "jsnum list" where
  "SRGB_D65_XYZ_TO_RGB_MATRIX =
     [Num 3.2404542, Num (-1.5371385), Num (-0.4985314),
      Num (-0.9692660), Num 1.8760108, Num 0.0415560,
      Num 0.0556434, Num (-0.2040259), Num 1.0572252]"

definition FLAT_WHITEPOINT_MATRIX :: "jsnum list" where
  "FLAT_WHITEPOINT_MATRIX = [jn 1, jn 1, jn 1]"

definition DECODE_L_CONSTANT :: jsnum where
  "DECODE_L_CONSTANT = Math_pow ((jn 8 + jn 16) / jn 116) (jn 3) / Num 8.0"

definition matrixProduct :: "jsnum list \<Rightarrow> jsnum list \<Rightarrow> jsnum list" where
  "matrixProduct a b =
     [el a 0 * el b 0 + el a 1 * el b 1 + el a 2 * el b 2,
      el a 3 * el b 0 + el a 4 * el b 1 + el a 5 * el b 2,
      el a 6 * el b 0 + el a 7 * el b 1 + el a 8 * el b 2]"

definition convertToFlat :: "jsnum list \<Rightarrow> jsnum list \<Rightarrow> jsnum list" where
  "convertToFlat sourceWhitePoint LMS =
     [el LMS 0 * jn 1 / el sourceWhitePoint 0,
      el LMS 1 * jn 1 / el sourceWhitePoint 1,
      el LMS 2 * jn 1 / el sourceWhitePoint 2]"

definition convertToD65 :: "jsnum list \<Rightarrow> jsnum list \<Rightarrow> jsnum list" where
  "convertToD65 sourceWhitePoint LMS =
     (let D65X = Num 0.95047; D65Y = jn 1; D65Z = Num 1.08883 in
      [el LMS 0 * D65X / el sourceWhitePoint 0,
       el LMS 1 * D65Y / el sourceWhitePoint 1,
       el LMS 2 * D65Z / el sourceWhitePoint 2])"

definition adjustToRange :: "jsnum \<Rightarrow> jsnum \<Rightarrow> jsnum \<Rightarrow> jsnum" where
  "adjustToRange min' max' value = Math_max min' (Math_min max' value)"

definition sRGBTransferFunction :: "jsnum \<Rightarrow> jsnum" where
  "sRGBTransferFunction color =
     (if color \<le> Num 0.0031308 then adjustToRange (jn 0) (jn 1) (Num 12.92 * color)
      else adjustToRange (jn 0) (jn 1)
             ((jn 1 + Num 0.055) * Math_pow color (jn 1 / Num 2.4) - Num 0.055))"

text \<open>\<open>decodeL\<close> calls itself once, on \<open>-L\<close>, when \<open>L < 0\<close>.\<close>

definition decodeL_nonneg :: "jsnum \<Rightarrow> jsnum" where
  "decodeL_nonneg L =
     (if Num 8.0 < L then Math_pow ((L + jn 16) / jn 116) (jn 3)
      else L * DECODE_L_CONSTANT)"

definition decodeL :: "jsnum \<Rightarrow> jsnum" where
  "decodeL L = (if L < jn 0 then - decodeL_nonneg (- L) else decodeL_nonneg L)"

definition compensateBlackPoint :: "jsnum list \<Rightarrow> jsnum list \<Rightarrow> jsnum list" where
  "compensateBlackPoint sourceBlackPoint XYZ_Flat =
     (if seq (el sourceBlackPoint 0) (jn 0) \<and> seq (el sourceBlackPoint 1) (jn 0) \<and>
         seq (el sourceBlackPoint 2) (jn 0)
      then [el XYZ_Flat 0, el XYZ_Flat 1, el XYZ_Flat 2]
      else
        (let zeroDecodeL = decodeL (jn 0);
             X_DST = zeroDecodeL;
             X_SRC = decodeL (el sourceBlackPoint 0);
             Y_DST = zeroDecodeL;
             Y_SRC = decodeL (el sourceBlackPoint 1);
             Z_DST = zeroDecodeL;
             Z_SRC = decodeL (el sourceBlackPoint 2);
             X_Scale = (jn 1 - X_DST) / (jn 1 - X_SRC);
             X_Offset = jn 1 - X_Scale;
             Y_Scale = (jn 1 - Y_DST) / (jn 1 - Y_SRC);
             Y_Offset = jn 1 - Y_Scale;
             Z_Scale = (jn 1 - Z_DST) / (jn 1 - Z_SRC);
             Z_Offset = jn 1 - Z_Scale
         in [el XYZ_Flat 0 * X_Scale + X_Offset,
             el XYZ_Flat 1 * Y_Scale + Y_Offset,
             el XYZ_Flat 2 * Z_Scale + Z_Offset]))"

definition normalizeWhitePointToFlat :: "jsnum list \<Rightarrow> jsnum list \<Rightarrow> jsnum list" where
  "normalizeWhitePointToFlat sourceWhitePoint XYZ_In =
     (if seq (el sourceWhitePoint 0) (jn 1) \<and> seq (el sourceWhitePoint 2) (jn 1)
      then [el XYZ_In 0, el XYZ_In 1, el XYZ_In 2]
      else
        (let LMS = matrixProduct BRADFORD_SCALE_MATRIX XYZ_In;
             LMS_Flat = convertToFlat sourceWhitePoint LMS
         in matrixProduct BRADFORD_SCALE_INVERSE_MATRIX LMS_Flat))"

definition normalizeWhitePointToD65 :: "jsnum list \<Rightarrow> jsnum list \<Rightarrow> jsnum list" where
  "normalizeWhitePointToD65 sourceWhitePoint XYZ_In =
     (let LMS = matrixProduct BRADFORD_SCALE_MATRIX XYZ_In;
          LMS_D65 = convertToD65 sourceWhitePoint LMS
      in matrixProduct BRADFORD_SCALE_INVERSE_MATRIX LMS_D65)"

definition CalRGBCS_convertToRgb ::
  "CalRGB \<Rightarrow> jsnum list \<Rightarrow> jsnum \<Rightarrow> nat list \<Rightarrow> jsnum \<Rightarrow> jsnum \<Rightarrow> nat list" where
  "CalRGBCS_convertToRgb cs src srcOffset dest destOffset scale =
     (let A = adjustToRange (jn 0) (jn 1) (rdf src srcOffset * scale);
          B = adjustToRange (jn 0) (jn 1) (rdf src (srcOffset + jn 1) * scale);
          C = adjustToRange (jn 0) (jn 1) (rdf src (srcOffset + jn 2) * scale);
          AGR = Math_pow A (GR cs);
          BGG = Math_pow B (GG cs);
          CGB = Math_pow C (GB cs);
          X = MXA cs * AGR + MXB cs * BGG + MXC cs * CGB;
          Y = MYA cs * AGR + MYB cs * BGG + MYC cs * CGB;
          Z = MZA cs * AGR + MZB cs * BGG + MZC cs * CGB;
          XYZ = [X, Y, Z];
          XYZ_Flat = normalizeWhitePointToFlat (whitePoint cs) XYZ;
          XYZ_Black = compensateBlackPoint (blackPoint cs) XYZ_Flat;
          XYZ_D65 = normalizeWhitePointToD65 FLAT_WHITEPOINT_MATRIX XYZ_Black;
          SRGB = matrixProduct SRGB_D65_XYZ_TO_RGB_MATRIX XYZ_D65
      in write3 dest destOffset
           (sRGBTransferFunction (el SRGB 0) * jn 255)
           (sRGBTransferFunction (el SRGB 1) * jn 255)
           (sRGBTransferFunction (el SRGB 2) * jn 255))"

fun CalRGBCS_loop ::
  "nat \<Rightarrow> CalRGB \<Rightarrow> jsnum \<Rightarrow> nat list \<Rightarrow> jsnum \<Rightarrow> nat list \<Rightarrow> jsnum \<Rightarrow> nat \<Rightarrow> nat list" where
  "CalRGBCS_loop 0 cs scale src srcOffset dest destOffset alpha01 = dest"
| "CalRGBCS_loop (Suc n) cs scale src srcOffset dest destOffset alpha01 =
     (let dest = CalRGBCS_convertToRgb cs (map jn src) srcOffset dest destOffset scale
      in CalRGBCS_loop n cs scale src (srcOffset + jn 3) dest
           (destOffset + jn (3 + alpha01)) alpha01)"

definition CalRGBCS_getRgbBuffer ::
  "CalRGB \<Rightarrow> nat list \<Rightarrow> jsnum \<Rightarrow> nat \<Rightarrow> nat list \<Rightarrow> jsnum \<Rightarrow> nat \<Rightarrow> nat \<Rightarrow> nat list" where
  "CalRGBCS_getRgbBuffer cs src srcOffset count dest destOffset bits alpha01 =
     (let scale = jn 1 / (ji (shl1 bits) - jn 1)
      in CalRGBCS_loop count cs scale src srcOffset dest destOffset alpha01)"

subsection \<open>Lab\<close>

definition fn_g :: "jsnum \<Rightarrow> jsnum" where
  "fn_g x = (if jn 6 / jn 29 \<le> x then x * x * x
             else (jn 108 / jn 841) * (x - jn 4 / jn 29))"

definition decode :: "jsnum \<Rightarrow> jsnum \<Rightarrow> jsnum \<Rightarrow> jsnum \<Rightarrow> jsnum" where
  "decode value high1 low2 high2 = low2 + value * (high2 - low2) / high1"

text \<open>\<open>maxVal\<close> is \<open>false\<close> (here \<open>None\<close>) when the samples need no decoding.\<close>

definition LabCS_convertToRgb ::
  "Lab \<Rightarrow> jsnum list \<Rightarrow> jsnum \<Rightarrow> jsnum option \<Rightarrow> nat list \<Rightarrow> jsnum \<Rightarrow> nat list" where
  "LabCS_convertToRgb cs src srcOffset maxVal dest destOffset =
     (let Ls = rdf src srcOffset;
          as = rdf src (srcOffset + jn 1);
          bs = rdf src (srcOffset + jn 2);
          Ls = (case maxVal of None \<Rightarrow> Ls | Some mv \<Rightarrow> decode Ls mv (jn 0) (jn 100));
          as = (case maxVal of None \<Rightarrow> as | Some mv \<Rightarrow> decode as mv (amin cs) (amax cs));
          bs = (case maxVal of None \<Rightarrow> bs | Some mv \<Rightarrow> decode bs mv (bmin cs) (bmax cs));
          as = (if amax cs < as then amax cs else if as < amin cs then amin cs else as);
          bs = (if bmax cs < bs then bmax cs else if bs < bmin cs then bmin cs else bs);
          M = (Ls + jn 16) / jn 116;
          L = M + (as / jn 500);
          N = M - (bs / jn 200);
          X = XW cs * fn_g L;
          Y = YW cs * fn_g M;
          Z = ZW cs * fn_g N;
          r = (if ZW cs < jn 1
               then X * Num 3.1339 + Y * Num (-1.6170) + Z * Num (-0.4906)
               else X * Num 3.2406 + Y * Num (-1.5372) + Z * Num (-0.4986));
          g = (if ZW cs < jn 1
               then X * Num (-0.9785) + Y * Num 1.9160 + Z * Num 0.0333
               else X * Num (-0.9689) + Y * Num 1.8758 + Z * Num 0.0415);
          b = (if ZW cs < jn 1
               then X * Num 0.0720 + Y * Num (-0.2290) + Z * Num 1.4057
               else X * Num 0.0557 + Y * Num (-0.2040) + Z * Num 1.0570)
      in write3 dest destOffset
           (Math_sqrt r * jn 255) (Math_sqrt g * jn 255) (Math_sqrt b * jn 255))"

fun LabCS_loop ::
  "nat \<Rightarrow> Lab \<Rightarrow> jsnum \<Rightarrow> nat list \<Rightarrow> jsnum \<Rightarrow> nat list \<Rightarrow> jsnum \<Rightarrow> nat \<Rightarrow> nat list" where
  "LabCS_loop 0 cs maxVal src srcOffset dest destOffset alpha01 = dest"
| "LabCS_loop (Suc n) cs maxVal src srcOffset dest destOffset alpha01 =
     (let dest = LabCS_convertToRgb cs (map jn src) srcOffset (Some maxVal) dest destOffset
      in LabCS_loop n cs maxVal src (srcOffset + jn 3) dest
           (destOffset + jn (3 + alpha01)) alpha01)"

definition LabCS_getRgbBuffer ::
  "Lab \<Rightarrow> nat list \<Rightarrow> jsnum \<Rightarrow> nat \<Rightarrow> nat list \<Rightarrow> jsnum \<Rightarrow> nat \<Rightarrow> nat \<Rightarrow> nat list" where
  "LabCS_getRgbBuffer cs src srcOffset count dest destOffset bits alpha01 =
     (let maxVal = ji (shl1 bits) - jn 1
      in LabCS_loop count cs maxVal src srcOffset dest destOffset alpha01)"

subsection \<open>The methods of a colour space\<close>

text \<open>A conversion mutates \<open>dest\<close> in place and may throw: it returns the destination
  as it is when the method returns or throws, and the exception if there is one.\<close>

type_synonym outcome = "nat list \<times> error option"

text \<open>\<open>numComps\<close> as an operand of arithmetic.\<close>

definition numComps_num :: "ColorSpace \<Rightarrow> jsnum" where
  "numComps_num cs = jn (null_to_0 (numComps cs))"

fun getOutputLength :: "ColorSpace \<Rightarrow> jsnum \<Rightarrow> nat \<Rightarrow> error + jsnum" where
  "getOutputLength DeviceGrayCS inputLength alpha01 = Inr (inputLength * jn (3 + alpha01))"
| "getOutputLength DeviceRgbCS inputLength alpha01 =
     Inr (ji (toInt32 (inputLength * jn (3 + alpha01) / jn 3)))"
| "getOutputLength DeviceCmykCS inputLength alpha01 =
     Inr (ji (toInt32 (inputLength / jn 4 * jn (3 + alpha01))))"
| "getOutputLength (CalGrayCS _) inputLength alpha01 = Inr (inputLength * jn (3 + alpha01))"
| "getOutputLength (CalRGBCS _) inputLength alpha01 =
     Inr (ji (toInt32 (inputLength * jn (3 + alpha01) / jn 3)))"
| "getOutputLength (LabCS _) inputLength alpha01 =
     Inr (ji (toInt32 (inputLength * jn (3 + alpha01) / jn 3)))"
| "getOutputLength (IndexedCS base _ _) inputLength alpha01 =
     getOutputLength base (inputLength * numComps_num base) alpha01"
| "getOutputLength (AlternateCS ncomps base _ _) inputLength alpha01 =
     getOutputLength base (inputLength * numComps_num base / jn ncomps) alpha01"
| "getOutputLength (PatternCS _) inputLength alpha01 =
     Inl (Unreachable ''Should not call ColorSpace.getOutputLength'')"

text \<open>The call \<open>tintFn(src, srcOffset, dest, 0)\<close>: the values the function writes replace
  the front of the \<open>Float32Array\<close> \<open>dest\<close>, whose length does not change.\<close>

definition callTintFn :: "tintFn \<Rightarrow> jsnum list \<Rightarrow> jsnum \<Rightarrow> jsnum list \<Rightarrow> jsnum list" where
  "callTintFn f src srcOffset dest =
     (let out = f src srcOffset in take (length dest) (out @ drop (length out) dest))"

function getRgbItem :: "ColorSpace \<Rightarrow> jsnum list \<Rightarrow> jsnum \<Rightarrow> nat list \<Rightarrow> jsnum \<Rightarrow> outcome"
and getRgbBuffer ::
  "ColorSpace \<Rightarrow> nat list \<Rightarrow> jsnum \<Rightarrow> nat \<Rightarrow> nat list \<Rightarrow> jsnum \<Rightarrow> nat \<Rightarrow> nat \<Rightarrow> outcome"
and IndexedCS_loop ::
  "nat \<Rightarrow> ColorSpace \<Rightarrow> jsnum \<Rightarrow> nat list \<Rightarrow> nat list \<Rightarrow> jsnum \<Rightarrow> nat list \<Rightarrow> jsnum \<Rightarrow> nat
     \<Rightarrow> outcome"
and AlternateCS_loop ::
  "nat \<Rightarrow> ColorSpace \<Rightarrow> tintFn \<Rightarrow> nat \<Rightarrow> jsnum \<Rightarrow> nat list \<Rightarrow> jsnum \<Rightarrow> nat list \<Rightarrow> jsnum
     \<Rightarrow> jsnum list \<Rightarrow> outcome"
where
  "getRgbItem DeviceGrayCS src srcOffset dest destOffset =
     (DeviceGrayCS_getRgbItem src srcOffset dest destOffset, None)"
| "getRgbItem DeviceRgbCS src srcOffset dest destOffset =
     (DeviceRgbCS_getRgbItem src srcOffset dest destOffset, None)"
| "getRgbItem DeviceCmykCS src srcOffset dest destOffset =
     (DeviceCmykCS_convertToRgb src srcOffset (jn 1) dest destOffset, None)"
| "getRgbItem (CalGrayCS cs) src srcOffset dest destOffset =
     (CalGrayCS_convertToRgb cs src srcOffset dest destOffset (jn 1), None)"
| "getRgbItem (CalRGBCS cs) src srcOffset dest destOffset =
     (CalRGBCS_convertToRgb cs src srcOffset dest destOffset (jn 1), None)"
| "getRgbItem (LabCS cs) src srcOffset dest destOffset =
     (LabCS_convertToRgb cs src srcOffset None dest destOffset, None)"
| "getRgbItem (IndexedCS base highVal lookup) src srcOffset dest destOffset =
     (let start = rdf src srcOffset * numComps_num base
      in getRgbBuffer base lookup start 1 dest destOffset 8 0)"
| "getRgbItem (AlternateCS ncomps base tintFn tmpBuf) src srcOffset dest destOffset =
     (let tmpBuf = callTintFn tintFn src srcOffset tmpBuf
      in getRgbItem base tmpBuf (jn 0) dest destOffset)"
| "getRgbItem (PatternCS _) src srcOffset dest destOffset =
     (dest, Some (Unreachable ''Should not call ColorSpace.getRgbItem''))"

| "getRgbBuffer DeviceGrayCS src srcOffset count dest destOffset bits alpha01 =
     (DeviceGrayCS_getRgbBuffer src srcOffset count dest destOffset bits alpha01, None)"
| "getRgbBuffer DeviceRgbCS src srcOffset count dest destOffset bits alpha01 =
     DeviceRgbCS_getRgbBuffer src srcOffset count dest destOffset bits alpha01"
| "getRgbBuffer DeviceCmykCS src srcOffset count dest destOffset bits alpha01 =
     (DeviceCmykCS_getRgbBuffer src srcOffset count dest destOffset bits alpha01, None)"
| "getRgbBuffer (CalGrayCS cs) src srcOffset count dest destOffset bits alpha01 =
     (CalGrayCS_getRgbBuffer cs src srcOffset count dest destOffset bits alpha01, None)"
| "getRgbBuffer (CalRGBCS cs) src srcOffset count dest destOffset bits alpha01 =
     (CalRGBCS_getRgbBuffer cs src srcOffset count dest destOffset bits alpha01, None)"
| "getRgbBuffer (LabCS cs) src srcOffset count dest destOffset bits alpha01 =
     (LabCS_getRgbBuffer cs src srcOffset count dest destOffset bits alpha01, None)"
| "getRgbBuffer (IndexedCS base highVal lookup) src srcOffset count dest destOffset bits alpha01 =
     (case getOutputLength base (numComps_num base) alpha01 of
        Inl e \<Rightarrow> (dest, Some e)
      | Inr outputDelta \<Rightarrow>
          IndexedCS_loop count base outputDelta lookup src srcOffset dest destOffset alpha01)"
| "getRgbBuffer (AlternateCS ncomps base tintFn tmpBuf) src srcOffset count dest destOffset
       bits alpha01 =
     (let scale = jn 1 / (ji (shl1 bits) - jn 1);
          baseNumComps = null_to_0 (numComps base);
          passthrough = ((isPassthrough base 8 \<or> \<not> usesZeroToOneRange base) \<and> alpha01 = 0);
          pos = (if passthrough then destOffset else jn 0);
          baseBuf = (if passthrough then dest else replicate (baseNumComps * count) 0);
          tinted = replicate baseNumComps (jn 0)
      in case AlternateCS_loop count base tintFn ncomps scale src srcOffset baseBuf pos tinted of
           (baseBuf, Some e) \<Rightarrow> (if passthrough then baseBuf else dest, Some e)
         | (baseBuf, None) \<Rightarrow>
             if \<not> passthrough
             then getRgbBuffer base baseBuf (jn 0) count dest destOffset 8 alpha01
             else (baseBuf, None))"
| "getRgbBuffer (PatternCS _) src srcOffset count dest destOffset bits alpha01 =
     (dest, Some (Unreachable ''Should not call ColorSpace.getRgbBuffer''))"

| "IndexedCS_loop 0 base outputDelta lookup src srcOffset dest destOffset alpha01 = (dest, None)"
| "IndexedCS_loop (Suc n) base outputDelta lookup src srcOffset dest destOffset alpha01 =
     (let lookupPos = rd src srcOffset * numComps_num base
      in case getRgbBuffer base lookup lookupPos 1 dest destOffset 8 alpha01 of
           (dest, Some e) \<Rightarrow> (dest, Some e)
         | (dest, None) \<Rightarrow>
             IndexedCS_loop n base outputDelta lookup src (srcOffset + jn 1) dest
               (destOffset + outputDelta) alpha01)"

| "AlternateCS_loop 0 base tintFn ncomps scale src srcOffset baseBuf pos tinted =
     (baseBuf, None)"
| "AlternateCS_loop (Suc n) base tintFn ncomps scale src srcOffset baseBuf pos tinted =
     (let scaled = map (\<lambda>j. rd src (srcOffset + jn j) * scale) [0..<ncomps];
          srcOffset = srcOffset + jn ncomps;
          tinted = callTintFn tintFn scaled (jn 0) tinted;
          baseNumComps = null_to_0 (numComps base)
      in if usesZeroToOneRange base
         then
           (let baseBuf = fold (\<lambda>j buf. wr buf (pos + jn j) (el tinted j * jn 255))
                               [0..<baseNumComps] baseBuf
            in AlternateCS_loop n base tintFn ncomps scale src srcOffset baseBuf
                 (pos + jn baseNumComps) tinted)
         else
           (case getRgbItem base tinted (jn 0) baseBuf pos of
              (baseBuf, Some e) \<Rightarrow> (baseBuf, Some e)
            | (baseBuf, None) \<Rightarrow>
                AlternateCS_loop n base tintFn ncomps scale src srcOffset baseBuf
                  (pos + jn baseNumComps) tinted))"
  by pat_completeness auto
termination
  by (relation "inv_image (less_than <*lex*> less_than)
        (\<lambda>x. case x of
           Inl (Inl (cs, src, srcOffset, dest, destOffset)) \<Rightarrow> (2 * size cs, 0)
         | Inl (Inr (cs, src, srcOffset, count, rest)) \<Rightarrow> (2 * size cs, 0)
         | Inr (Inl (n, base, rest)) \<Rightarrow> (2 * size base + 1, n)
         | Inr (Inr (n, base, rest)) \<Rightarrow> (2 * size base + 1, n))") auto

section \<open>Filling and resizing a raster\<close>

definition COMPONENTS :: nat where
  "COMPONENTS = 3"

text \<open>One pixel of the inner loop of \<open>resizeRgbImage\<close>; the state is \<open>dest\<close> and
  \<open>newIndex\<close>.\<close>

definition resize_pixel ::
  "nat list \<Rightarrow> nat list \<Rightarrow> jsnum \<Rightarrow> nat \<Rightarrow> nat \<Rightarrow> nat list \<times> nat \<Rightarrow> nat list \<times> nat" where
  "resize_pixel src xScaled py alpha01 j st =
     (let dest = fst st; newIndex = snd st;
          oldIndex = py + rd xScaled (jn j);
          dest = wr dest (jn newIndex) (rd src oldIndex);
          dest = wr dest (jn (newIndex + 1)) (rd src (oldIndex + jn 1));
          dest = wr dest (jn (newIndex + 2)) (rd src (oldIndex + jn 2))
      in (dest, newIndex + 3 + alpha01))"

definition resize_row ::
  "nat list \<Rightarrow> nat list \<Rightarrow> jsnum \<Rightarrow> nat \<Rightarrow> nat \<Rightarrow> nat \<Rightarrow> nat \<Rightarrow> nat list \<times> nat
     \<Rightarrow> nat list \<times> nat" where
  "resize_row src xScaled yRatio w1Scanline w2 alpha01 i st =
     (let py = Math_floor (jn i * yRatio) * jn w1Scanline
      in fold (resize_pixel src xScaled py alpha01) [0..<w2] st)"

definition resizeRgbImage ::
  "nat list \<Rightarrow> nat list \<Rightarrow> nat \<Rightarrow> nat \<Rightarrow> nat \<Rightarrow> nat \<Rightarrow> nat \<Rightarrow> nat list" where
  "resizeRgbImage src dest w1 h1 w2 h2 alpha01 =
     (let alpha01 = (if alpha01 \<noteq> 1 then 0 else alpha01);
          xRatio = jn w1 / jn w2;
          yRatio = jn h1 / jn h2;
          w1Scanline = w1 * COMPONENTS;
          xScaled = map (\<lambda>i. toUintN 16 (Math_floor (jn i * xRatio) * jn COMPONENTS)) [0..<w2]
      in fst (fold (resize_row src xScaled yRatio w1Scanline w2 alpha01) [0..<h2] (dest, 0)))"

text \<open>A store into a \<open>Uint8Array\<close>.\<close>

definition wr8 :: "nat list \<Rightarrow> jsnum \<Rightarrow> jsnum \<Rightarrow> nat list" where
  "wr8 xs i v = (case as_index i of
                   Some k \<Rightarrow> if k < length xs then xs[k := toUintN 8 v] else xs
                 | None \<Rightarrow> xs)"

text \<open>The bodies of the three copying loops of \<open>fillRgb\<close>: through the colour map into
  \<open>dest\<close>, through the colour map into the \<open>Uint8Array\<close> \<open>rgbBuf\<close>, and from \<open>rgbBuf\<close>
  into \<open>dest\<close>.\<close>

definition fillRgb_map_pixel ::
  "nat list \<Rightarrow> nat list \<Rightarrow> nat \<Rightarrow> nat \<Rightarrow> nat list \<times> nat \<Rightarrow> nat list \<times> nat" where
  "fillRgb_map_pixel comps colorMap alpha01 i st =
     (let dest = fst st; destPos = snd st;
          key = rd comps (jn i) * jn 3;
          dest = wr dest (jn destPos) (rd colorMap key);
          dest = wr dest (jn (destPos + 1)) (rd colorMap (key + jn 1));
          dest = wr dest (jn (destPos + 2)) (rd colorMap (key + jn 2))
      in (dest, destPos + 3 + alpha01))"

definition fillRgb_map_pixel8 ::
  "nat list \<Rightarrow> nat list \<Rightarrow> nat \<Rightarrow> nat list \<times> nat \<Rightarrow> nat list \<times> nat" where
  "fillRgb_map_pixel8 comps colorMap i st =
     (let rgbBuf = fst st; rgbPos = snd st;
          key = rd comps (jn i) * jn 3;
          rgbBuf = wr8 rgbBuf (jn rgbPos) (rd colorMap key);
          rgbBuf = wr8 rgbBuf (jn (rgbPos + 1)) (rd colorMap (key + jn 1));
          rgbBuf = wr8 rgbBuf (jn (rgbPos + 2)) (rd colorMap (key + jn 2))
      in (rgbBuf, rgbPos + 3))"

definition fillRgb_copy_pixel ::
  "nat list \<Rightarrow> nat \<Rightarrow> nat \<Rightarrow> nat list \<times> nat \<times> nat \<Rightarrow> nat list \<times> nat \<times> nat" where
  "fillRgb_copy_pixel rgbBuf alpha01 i st =
     (let dest = fst st; destPos = fst (snd st); rgbPos = snd (snd st);
          dest = wr dest (jn destPos) (rd rgbBuf (jn rgbPos));
          dest = wr dest (jn (destPos + 1)) (rd rgbBuf (jn (rgbPos + 1)));
          dest = wr dest (jn (destPos + 2)) (rd rgbBuf (jn (rgbPos + 2)))
      in (dest, destPos + 3 + alpha01, rgbPos + 3))"

text \<open>The last statement of \<open>fillRgb\<close>, run when \<open>rgbBuf\<close> is not \<open>null\<close>.\<close>

definition fillRgb_finish ::
  "nat list \<Rightarrow> nat list \<Rightarrow> bool \<Rightarrow> nat \<Rightarrow> nat \<Rightarrow> nat \<Rightarrow> nat \<Rightarrow> nat \<Rightarrow> nat \<Rightarrow> nat list" where
  "fillRgb_finish rgbBuf dest needsResizing originalWidth originalHeight width height
       actualHeight alpha01 =
     (if needsResizing
      then resizeRgbImage rgbBuf dest originalWidth originalHeight width height alpha01
      else fst (fold (fillRgb_copy_pixel rgbBuf alpha01) [0..<width * actualHeight]
                  (dest, 0, 0)))"

definition fillRgb ::
  "ColorSpace \<Rightarrow> nat list \<Rightarrow> nat \<Rightarrow> nat \<Rightarrow> nat \<Rightarrow> nat \<Rightarrow> nat \<Rightarrow> nat \<Rightarrow> nat list \<Rightarrow> nat
     \<Rightarrow> outcome" where
  "fillRgb cs dest originalWidth originalHeight width height actualHeight bpc comps alpha01 =
     (let count = originalWidth * originalHeight;
          numComponentColors = shl1 bpc;
          needsResizing = (originalHeight \<noteq> height \<or> originalWidth \<noteq> width)
      in
      if isPassthrough cs bpc
      then (fillRgb_finish comps dest needsResizing originalWidth originalHeight width
              height actualHeight alpha01, None)
      else if numComps cs = Some 1 \<and> numComponentColors < int count \<and>
              name cs \<noteq> ''DeviceGray'' \<and> name cs \<noteq> ''DeviceRGB''
      then
        (if numComponentColors < 0 then (dest, Some RangeError)
         else
           (let allColors = map (\<lambda>i. i mod (if bpc \<le> 8 then 2 ^ 8 else 2 ^ 16))
                                [0..<nat numComponentColors];
                colorMap = replicate (nat numComponentColors * 3) 0
            in case getRgbBuffer cs allColors (jn 0) (nat numComponentColors) colorMap (jn 0)
                      bpc 0 of
                 (colorMap, Some e) \<Rightarrow> (dest, Some e)
               | (colorMap, None) \<Rightarrow>
                   if \<not> needsResizing
                   then (fst (fold (fillRgb_map_pixel comps colorMap alpha01) [0..<count]
                                (dest, 0)), None)
                   else
                     (let rgbBuf = fst (fold (fillRgb_map_pixel8 comps colorMap) [0..<count]
                                          (replicate (count * 3) 0, 0))
                      in (fillRgb_finish rgbBuf dest needsResizing originalWidth
                            originalHeight width height actualHeight alpha01, None))))
      else if \<not> needsResizing
      then getRgbBuffer cs comps (jn 0) (width * actualHeight) dest (jn 0) bpc alpha01
      else
        (case getRgbBuffer cs comps (jn 0) count (replicate (count * 3) 0) (jn 0) bpc 0 of
           (rgbBuf, Some e) \<Rightarrow> (dest, Some e)
         | (rgbBuf, None) \<Rightarrow>
             (fillRgb_finish rgbBuf dest needsResizing originalWidth originalHeight width
                height actualHeight alpha01, None)))"

section \<open>Construction\<close>

text \<open>
  A constructor logs and may throw: it returns the log and either the exception or the
  instance. The numbers a message interpolates are left out of the logged text.
\<close>

type_synonym 'a result = "log_entry list \<times> (error + 'a)"

definition ok :: "'a \<Rightarrow> 'a result" where
  "ok x = ([], Inr x)"

definition throw :: "error \<Rightarrow> 'a result" where
  "throw e = ([], Inl e)"

definition logged :: "log_entry list \<Rightarrow> 'a result \<Rightarrow> 'a result" where
  "logged msgs r = (msgs @ fst r, snd r)"

definition bind :: "'a result \<Rightarrow> ('a \<Rightarrow> 'b result) \<Rightarrow> 'b result" where
  "bind m f = (case snd m of Inl e \<Rightarrow> (fst m, Inl e) | Inr x \<Rightarrow> logged (fst m) (f x))"

text \<open>The truth value of a Number, as in \<open>gamma || 1\<close>.\<close>

definition truthy_num :: "jsnum \<Rightarrow> bool" where
  "truthy_num x = (x \<noteq> NaN \<and> x \<noteq> Num 0)"

text \<open>The lookup argument of \<open>IndexedCS\<close>: a stream (its bytes), a string (its code
  units), a \<open>Uint8Array\<close>, or anything else.\<close>

datatype lookup_arg =
    LookupStream "nat list"
  | LookupString "nat list"
  | LookupBytes "nat list"
  | LookupOther

text \<open>\<open>new Uint8Array(length)\<close>: the length is truncated to an integer; a negative or
  infinite length is a \<open>RangeError\<close>.\<close>

fun typed_array_length :: "jsnum \<Rightarrow> error + nat" where
  "typed_array_length NaN = Inr 0"
| "typed_array_length (Num a) = (if trunc a < 0 then Inl RangeError else Inr (nat (trunc a)))"
| "typed_array_length _ = Inl RangeError"

text \<open>Modelled from the spec: \<open>Stream.getBytes(length)\<close> is not in the source; by the
  specification the constructor consumes the first \<open>length\<close> bytes of the stream.\<close>

definition getBytes :: "nat list \<Rightarrow> nat \<Rightarrow> nat list" where
  "getBytes bytes length' = take length' bytes"

text \<open>\<open>string.charCodeAt(i)\<close> is NaN past the end of the string.\<close>

definition charCodeAt :: "nat list \<Rightarrow> nat \<Rightarrow> jsnum" where
  "charCodeAt s i = (if i < length s then jn (s ! i) else NaN)"

definition new_IndexedCS :: "ColorSpace \<Rightarrow> jsnum \<Rightarrow> lookup_arg \<Rightarrow> error + ColorSpace" where
  "new_IndexedCS base highVal lookup =
     (let baseNumComps = numComps_num base;
          length' = baseNumComps * highVal
      in case lookup of
           LookupStream stream \<Rightarrow>
             (case typed_array_length length' of
                Inl e \<Rightarrow> Inl e
              | Inr n \<Rightarrow>
                  (let bytes = getBytes stream n
                   in Inr (IndexedCS base highVal (bytes @ replicate (n - length bytes) 0))))
         | LookupString s \<Rightarrow>
             (case typed_array_length length' of
                Inl e \<Rightarrow> Inl e
              | Inr n \<Rightarrow>
                  Inr (IndexedCS base highVal (map (\<lambda>i. toUintN 8 (charCodeAt s i)) [0..<n])))
         | LookupBytes bytes \<Rightarrow> Inr (IndexedCS base highVal bytes)
         | LookupOther \<Rightarrow> Inl (FormatError ''Unrecognized lookup table''))"

definition new_AlternateCS :: "nat \<Rightarrow> ColorSpace \<Rightarrow> tintFn \<Rightarrow> ColorSpace" where
  "new_AlternateCS ncomps base tintFn =
     AlternateCS ncomps base tintFn (replicate (null_to_0 (numComps base)) (jn 0))"

definition new_CalGrayCS ::
  "jsnum list option \<Rightarrow> jsnum list option \<Rightarrow> jsnum option \<Rightarrow> ColorSpace result" where
  "new_CalGrayCS whitePoint' blackPoint' gamma =
     (case whitePoint' of
        None \<Rightarrow> throw (FormatError ''WhitePoint missing - required for color space CalGray'')
      | Some wp \<Rightarrow>
         (let bp = (case blackPoint' of None \<Rightarrow> [jn 0, jn 0, jn 0] | Some b \<Rightarrow> b);
              gamma = (case gamma of None \<Rightarrow> jn 1
                       | Some g \<Rightarrow> if truthy_num g then g else jn 1);
              cs = \<lparr>cg_XW = el wp 0, cg_YW = el wp 1, cg_ZW = el wp 2,
                    cg_XB = el bp 0, cg_YB = el bp 1, cg_ZB = el bp 2, cg_G = gamma\<rparr>
          in if cg_XW cs < jn 0 \<or> cg_ZW cs < jn 0 \<or> \<not> seq (cg_YW cs) (jn 1)
             then throw (FormatError
                    ''Invalid WhitePoint components for CalGray, no fallback available'')
             else
               (let bad_bp = (cg_XB cs < jn 0 \<or> cg_YB cs < jn 0 \<or> cg_ZB cs < jn 0);
                    log1 = (if bad_bp
                            then [Info ''Invalid BlackPoint for CalGray, falling back to default.'']
                            else []);
                    cs = (if bad_bp then cs\<lparr>cg_XB := jn 0, cg_YB := jn 0, cg_ZB := jn 0\<rparr>
                          else cs);
                    log2 = (if \<not> seq (cg_XB cs) (jn 0) \<or> \<not> seq (cg_YB cs) (jn 0) \<or>
                               \<not> seq (cg_ZB cs) (jn 0)
                            then [Warn ''CalGray, BlackPoint: only default values are supported.'']
                            else []);
                    bad_g = (cg_G cs < jn 1);
                    log3 = (if bad_g
                            then [Info ''Invalid Gamma for CalGray, falling back to default.'']
                            else []);
                    cs = (if bad_g then cs\<lparr>cg_G := jn 1\<rparr> else cs)
                in (log1 @ log2 @ log3, Inr (CalGrayCS cs)))))"

definition new_CalRGBCS ::
  "jsnum list option \<Rightarrow> jsnum list option \<Rightarrow> jsnum list option \<Rightarrow> jsnum list option
     \<Rightarrow> ColorSpace result" where
  "new_CalRGBCS whitePoint' blackPoint' gamma matrix =
     (case whitePoint' of
        None \<Rightarrow> throw (FormatError ''WhitePoint missing - required for color space CalRGB'')
      | Some wp \<Rightarrow>
         (let bp = (case blackPoint' of None \<Rightarrow> [jn 0, jn 0, jn 0] | Some b \<Rightarrow> b);
              gamma = (case gamma of None \<Rightarrow> [jn 1, jn 1, jn 1] | Some g \<Rightarrow> g);
              matrix = (case matrix of
                          None \<Rightarrow> [jn 1, jn 0, jn 0, jn 0, jn 1, jn 0, jn 0, jn 0, jn 1]
                        | Some m \<Rightarrow> m);
              XW' = el wp 0; YW' = el wp 1; ZW' = el wp 2;
              XB' = el bp 0; YB' = el bp 1; ZB' = el bp 2;
              cs = \<lparr>whitePoint = wp, blackPoint = bp,
                    GR = el gamma 0, GG = el gamma 1, GB = el gamma 2,
                    MXA = el matrix 0, MYA = el matrix 1, MZA = el matrix 2,
                    MXB = el matrix 3, MYB = el matrix 4, MZB = el matrix 5,
                    MXC = el matrix 6, MYC = el matrix 7, MZC = el matrix 8\<rparr>
          in if XW' < jn 0 \<or> ZW' < jn 0 \<or> \<not> seq YW' (jn 1)
             then throw (FormatError
                    ''Invalid WhitePoint components for CalRGB, no fallback available'')
             else
               (let bad_bp = (XB' < jn 0 \<or> YB' < jn 0 \<or> ZB' < jn 0);
                    log1 = (if bad_bp
                            then [Info ''Invalid BlackPoint for CalRGB, falling back to default.'']
                            else []);
                    cs = (if bad_bp then cs\<lparr>blackPoint := [jn 0, jn 0, jn 0]\<rparr> else cs);
                    bad_g = (GR cs < jn 0 \<or> GG cs < jn 0 \<or> GB cs < jn 0);
                    log2 = (if bad_g
                            then [Info ''Invalid Gamma for CalRGB, falling back to default.'']
                            else []);
                    cs = (if bad_g then cs\<lparr>GR := jn 1, GG := jn 1, GB := jn 1\<rparr> else cs)
                in (log1 @ log2, Inr (CalRGBCS cs)))))"

definition new_LabCS ::
  "jsnum list option \<Rightarrow> jsnum list option \<Rightarrow> jsnum list option \<Rightarrow> ColorSpace result" where
  "new_LabCS whitePoint' blackPoint' range' =
     (case whitePoint' of
        None \<Rightarrow> throw (FormatError ''WhitePoint missing - required for color space Lab'')
      | Some wp \<Rightarrow>
         (let bp = (case blackPoint' of None \<Rightarrow> [jn 0, jn 0, jn 0] | Some b \<Rightarrow> b);
              range' = (case range' of
                          None \<Rightarrow> [Num (- 100), jn 100, Num (- 100), jn 100]
                        | Some r \<Rightarrow> r);
              cs = \<lparr>XW = el wp 0, YW = el wp 1, ZW = el wp 2,
                    amin = el range' 0, amax = el range' 1,
                    bmin = el range' 2, bmax = el range' 3,
                    XB = el bp 0, YB = el bp 1, ZB = el bp 2\<rparr>
          in if XW cs < jn 0 \<or> ZW cs < jn 0 \<or> \<not> seq (YW cs) (jn 1)
             then throw (FormatError ''Invalid WhitePoint components, no fallback available'')
             else
               (let bad_bp = (XB cs < jn 0 \<or> YB cs < jn 0 \<or> ZB cs < jn 0);
                    log1 = (if bad_bp then [Info ''Invalid BlackPoint, falling back to default'']
                            else []);
                    cs = (if bad_bp then cs\<lparr>XB := jn 0, YB := jn 0, ZB := jn 0\<rparr> else cs);
                    bad_range = (amax cs < amin cs \<or> bmax cs < bmin cs);
                    log2 = (if bad_range then [Info ''Invalid Range, falling back to defaults'']
                            else []);
                    cs = (if bad_range
                          then cs\<lparr>amin := Num (- 100), amax := jn 100,
                                  bmin := Num (- 100), bmax := jn 100\<rparr>
                          else cs)
                in (log1 @ log2, Inr (LabCS cs)))))"

section \<open>The intermediate representation and the parser\<close>

text \<open>
  The intermediate representation is a tag or an array that starts with a tag. A
  parameter array (\<open>WhitePoint\<close>, \<open>BlackPoint\<close>, \<open>Gamma\<close>, \<open>Matrix\<close>, \<open>Range\<close>) is an array of
  Numbers or absent.
\<close>

datatype IR =
    IR_DeviceGrayCS
  | IR_DeviceRgbCS
  | IR_DeviceCmykCS
  | IR_CalGrayCS "jsnum list option" "jsnum list option" "jsnum option"
  | IR_CalRGBCS "jsnum list option" "jsnum list option" "jsnum list option" "jsnum list option"
  | IR_PatternCS "IR option"
  | IR_IndexedCS IR jsnum lookup_arg
  | IR_AlternateCS nat IR tintFn
  | IR_LabCS "jsnum list option" "jsnum list option" "jsnum list option"

fun fromIR :: "IR \<Rightarrow> ColorSpace result" where
  "fromIR IR_DeviceGrayCS = ok DeviceGrayCS"
| "fromIR IR_DeviceRgbCS = ok DeviceRgbCS"
| "fromIR IR_DeviceCmykCS = ok DeviceCmykCS"
| "fromIR (IR_CalGrayCS whitePoint' blackPoint' gamma) =
     new_CalGrayCS whitePoint' blackPoint' gamma"
| "fromIR (IR_CalRGBCS whitePoint' blackPoint' gamma matrix) =
     new_CalRGBCS whitePoint' blackPoint' gamma matrix"
| "fromIR (IR_PatternCS basePatternCS) =
     (case basePatternCS of
        None \<Rightarrow> ok (PatternCS None)
      | Some b \<Rightarrow> bind (fromIR b) (\<lambda>base. ok (PatternCS (Some base))))"
| "fromIR (IR_IndexedCS baseIndexedCS hiVal lookup) =
     bind (fromIR baseIndexedCS) (\<lambda>base. ([], new_IndexedCS base hiVal lookup))"
| "fromIR (IR_AlternateCS ncomps alt tintFn) =
     bind (fromIR alt) (\<lambda>base. ok (new_AlternateCS ncomps base tintFn))"
| "fromIR (IR_LabCS whitePoint' blackPoint' range') = new_LabCS whitePoint' blackPoint' range'"

subsection \<open>PDF objects\<close>

text \<open>
  The PDF object model is not in the source; the parser consumes it through
  \<open>xref.fetchIfRef\<close>, \<open>isName\<close>, \<open>isDict\<close>, \<open>isStream\<close>, \<open>Dict.get\<close>, \<open>Dict.getArray\<close>,
  \<open>Stream.getBytes\<close> and the \<open>name\<close> of a name. A dictionary is modelled by its two
  methods \<open>get\<close> and \<open>getArray\<close>, a stream by the \<open>get\<close> of its dictionary and its bytes.
\<close>

datatype pdfobj =
    PUndefined
  | PNull
  | PBool bool
  | PNum real
  | PString "nat list"
  | PName string
  | PArray "pdfobj list"
  | PDict "string \<Rightarrow> pdfobj" "string \<Rightarrow> pdfobj list option"
  | PStream "string \<Rightarrow> pdfobj" "nat list"
  | PRef nat

text \<open>Modelled from the spec: \<open>xref.fetchIfRef(obj)\<close> resolves an indirect reference and
  returns any other object as it is.\<close>

definition fetchIfRef :: "(nat \<Rightarrow> pdfobj) \<Rightarrow> pdfobj \<Rightarrow> pdfobj" where
  "fetchIfRef xref obj = (case obj of PRef n \<Rightarrow> xref n | _ \<Rightarrow> obj)"

text \<open>The truth value of an object, as in \<open>if (alt)\<close>.\<close>

fun truthy :: "pdfobj \<Rightarrow> bool" where
  "truthy PUndefined = False"
| "truthy PNull = False"
| "truthy (PBool b) = b"
| "truthy (PNum a) = (a \<noteq> 0)"
| "truthy (PString s) = (s \<noteq> [])"
| "truthy _ = True"

text \<open>\<open>cs[k]\<close> on an array.\<close>

definition item :: "pdfobj list \<Rightarrow> nat \<Rightarrow> pdfobj" where
  "item xs k = (if k < length xs then xs ! k else PUndefined)"

text \<open>\<open>obj.name\<close>: a \<open>TypeError\<close> on \<open>undefined\<close> and \<open>null\<close>, the name of a name, and
  \<open>undefined\<close> (here \<open>None\<close>) on any other object.\<close>

fun name_of :: "pdfobj \<Rightarrow> error + string option" where
  "name_of PUndefined = Inl TypeError"
| "name_of PNull = Inl TypeError"
| "name_of (PName n) = Inr (Some n)"
| "name_of _ = Inr None"

text \<open>A PDF number as a Number. An object that is not a number is taken as NaN where
  the source uses it as a Number.\<close>

fun num_of :: "pdfobj \<Rightarrow> jsnum" where
  "num_of (PNum a) = Num a"
| "num_of _ = NaN"

definition nums_of :: "pdfobj list option \<Rightarrow> jsnum list option" where
  "nums_of xs = map_option (map num_of) xs"

definition gamma_of :: "pdfobj \<Rightarrow> jsnum option" where
  "gamma_of obj = (case obj of PUndefined \<Rightarrow> None | PNull \<Rightarrow> None | _ \<Rightarrow> Some (num_of obj))"

text \<open>\<open>altCS.numComps === numComps\<close>, where \<open>numComps\<close> is the object under \<open>N\<close>.\<close>

fun numComps_eq :: "nat option \<Rightarrow> pdfobj \<Rightarrow> bool" where
  "numComps_eq (Some n) (PNum a) = (real n = a)"
| "numComps_eq None PNull = True"
| "numComps_eq _ _ = False"

text \<open>The lookup of an \<open>Indexed\<close> space: a stream is drained by \<open>getBytes()\<close>.\<close>

fun lookup_of :: "pdfobj \<Rightarrow> lookup_arg" where
  "lookup_of (PStream _ bytes) = LookupBytes bytes"
| "lookup_of (PString s) = LookupString s"
| "lookup_of _ = LookupOther"

text \<open>The tail of the \<open>ICCBased\<close> case: the device space for \<open>N\<close>, or the \<open>break\<close> that
  leads to the last \<open>throw\<close> of \<open>parseToIR\<close>.\<close>

definition icc_device :: "pdfobj \<Rightarrow> IR result" where
  "icc_device N =
     (if N = PNum 1 then ok IR_DeviceGrayCS
      else if N = PNum 3 then ok IR_DeviceRgbCS
      else if N = PNum 4 then ok IR_DeviceCmykCS
      else throw (FormatError ''unrecognized color space object''))"

definition mode_text :: "string option \<Rightarrow> string" where
  "mode_text mode = (case mode of None \<Rightarrow> ''undefined'' | Some m \<Rightarrow> m)"

text \<open>
  \<open>parseToIR\<close> follows references and resources and need not terminate: its first
  argument bounds the depth of the calls of \<open>parseToIR\<close>, and running out of it is the
  stack overflow of the engine. \<open>parseToIR_array\<close> is the second half of the body, from
  \<open>if (Array.isArray(cs))\<close> on. The text of an object interpolated into a message is left
  out.
\<close>

function parseToIR ::
  "nat \<Rightarrow> (nat \<Rightarrow> pdfobj) \<Rightarrow> pdfobj \<Rightarrow> (pdfobj \<Rightarrow> tintFn) \<Rightarrow> pdfobj \<Rightarrow> IR result"
and parseToIR_array ::
  "nat \<Rightarrow> (nat \<Rightarrow> pdfobj) \<Rightarrow> pdfobj \<Rightarrow> (pdfobj \<Rightarrow> tintFn) \<Rightarrow> pdfobj \<Rightarrow> IR result"
where
  "parseToIR 0 xref res pdfFunctionFactory cs = throw StackOverflow"
| "parseToIR (Suc fuel) xref res pdfFunctionFactory cs =
     (case fetchIfRef xref cs of
        PName nm \<Rightarrow>
          if nm = ''DeviceGray'' \<or> nm = ''G'' then ok IR_DeviceGrayCS
          else if nm = ''DeviceRGB'' \<or> nm = ''RGB'' then ok IR_DeviceRgbCS
          else if nm = ''DeviceCMYK'' \<or> nm = ''CMYK'' then ok IR_DeviceCmykCS
          else if nm = ''Pattern'' then ok (IR_PatternCS None)
          else
            (case res of
               PDict res_get _ \<Rightarrow>
                 (case res_get ''ColorSpace'' of
                    PDict colorSpaces_get _ \<Rightarrow>
                      (let resCS = colorSpaces_get nm in
                       if truthy resCS
                       then (case resCS of
                               PName _ \<Rightarrow> parseToIR fuel xref res pdfFunctionFactory resCS
                             | _ \<Rightarrow> parseToIR_array fuel xref res pdfFunctionFactory resCS)
                       else throw (FormatError (''unrecognized colorspace '' @ nm)))
                  | _ \<Rightarrow> throw (FormatError (''unrecognized colorspace '' @ nm)))
             | _ \<Rightarrow> throw (FormatError (''unrecognized colorspace '' @ nm)))
      | cs' \<Rightarrow> parseToIR_array fuel xref res pdfFunctionFactory cs')"
| "parseToIR_array fuel xref res pdfFunctionFactory cs =
     (case cs of
        PArray arr \<Rightarrow>
          (case name_of (fetchIfRef xref (item arr 0)) of
             Inl e \<Rightarrow> throw e
           | Inr mode \<Rightarrow>
               if mode = Some ''DeviceGray'' \<or> mode = Some ''G'' then ok IR_DeviceGrayCS
               else if mode = Some ''DeviceRGB'' \<or> mode = Some ''RGB'' then ok IR_DeviceRgbCS
               else if mode = Some ''DeviceCMYK'' \<or> mode = Some ''CMYK'' then ok IR_DeviceCmykCS
               else if mode = Some ''CalGray'' then
                 (case fetchIfRef xref (item arr 1) of
                    PDict get getArray \<Rightarrow>
                      ok (IR_CalGrayCS (nums_of (getArray ''WhitePoint''))
                            (nums_of (getArray ''BlackPoint'')) (gamma_of (get ''Gamma'')))
                  | _ \<Rightarrow> throw TypeError)
               else if mode = Some ''CalRGB'' then
                 (case fetchIfRef xref (item arr 1) of
                    PDict get getArray \<Rightarrow>
                      ok (IR_CalRGBCS (nums_of (getArray ''WhitePoint''))
                            (nums_of (getArray ''BlackPoint'')) (nums_of (getArray ''Gamma''))
                            (nums_of (getArray ''Matrix'')))
                  | _ \<Rightarrow> throw TypeError)
               else if mode = Some ''ICCBased'' then
                 (case fetchIfRef xref (item arr 1) of
                    PStream dict_get _ \<Rightarrow>
                      (let N = dict_get ''N'';
                           alt = dict_get ''Alternate''
                       in if truthy alt
                          then bind (parseToIR fuel xref res pdfFunctionFactory alt) (\<lambda>altIR.
                               bind (fromIR altIR) (\<lambda>altCS.
                                 if numComps_eq (numComps altCS) N then ok altIR
                                 else logged
                                   [Warn ''ICCBased color space: Ignoring incorrect /Alternate entry.'']
                                   (icc_device N)))
                          else icc_device N)
                  | _ \<Rightarrow> throw TypeError)
               else if mode = Some ''Pattern'' then
                 (let basePatternCS = item arr 1 in
                  if truthy basePatternCS
                  then bind (parseToIR fuel xref res pdfFunctionFactory basePatternCS)
                         (\<lambda>b. ok (IR_PatternCS (Some b)))
                  else ok (IR_PatternCS None))
               else if mode = Some ''Indexed'' \<or> mode = Some ''I'' then
                 bind (parseToIR fuel xref res pdfFunctionFactory (item arr 1)) (\<lambda>baseIndexedCS.
                   (let hiVal = num_of (fetchIfRef xref (item arr 2)) + jn 1;
                        lookup = lookup_of (fetchIfRef xref (item arr 3))
                    in ok (IR_IndexedCS baseIndexedCS hiVal lookup)))
               else if mode = Some ''Separation'' \<or> mode = Some ''DeviceN'' then
                 (let ncomps = (case fetchIfRef xref (item arr 1) of
                                  PArray names \<Rightarrow> length names | _ \<Rightarrow> 1)
                  in bind (parseToIR fuel xref res pdfFunctionFactory (item arr 2)) (\<lambda>alt.
                       ok (IR_AlternateCS ncomps alt
                             (pdfFunctionFactory (fetchIfRef xref (item arr 3))))))
               else if mode = Some ''Lab'' then
                 (case fetchIfRef xref (item arr 1) of
                    PDict get getArray \<Rightarrow>
                      ok (IR_LabCS (nums_of (getArray ''WhitePoint''))
                            (nums_of (getArray ''BlackPoint'')) (nums_of (getArray ''Range'')))
                  | _ \<Rightarrow> throw TypeError)
               else throw (FormatError (''unimplemented color space object '' @ mode_text mode)))
      | _ \<Rightarrow> throw (FormatError ''unrecognized color space object''))"
  by pat_completeness auto
termination
  by (relation "inv_image (less_than <*lex*> less_than)
        (\<lambda>x. case x of
           Inl (fuel, rest) \<Rightarrow> (fuel, 0 :: nat)
         | Inr (fuel, rest) \<Rightarrow> (fuel, 1))") auto

declare parseToIR.simps(2) [simp del]
declare parseToIR_array.simps [simp del]

definition parse ::
  "nat \<Rightarrow> (nat \<Rightarrow> pdfobj) \<Rightarrow> pdfobj \<Rightarrow> (pdfobj \<Rightarrow> tintFn) \<Rightarrow> pdfobj \<Rightarrow> ColorSpace result" where
  "parse fuel xref res pdfFunctionFactory cs =
     bind (parseToIR fuel xref res pdfFunctionFactory cs) fromIR"

section \<open>Bytes of the destination\<close>

text \<open>\<open>only_bytes_written dest dest'\<close>: \<open>dest'\<close> has the length of \<open>dest\<close>, and every element
  of \<open>dest'\<close> is the element of \<open>dest\<close> at that index or a value in 0..255.\<close>

definition only_bytes_written :: "nat list \<Rightarrow> nat list \<Rightarrow> bool" where
  "only_bytes_written dest dest' \<longleftrightarrow>
     length dest' = length dest \<and> (\<forall>i < length dest. dest' ! i = dest ! i \<or> dest' ! i \<le> 255)"

section \<open>Properties\<close>

subsection \<open>Numbers and arrays\<close>

lemma is_int_of_nat [simp]: "is_int (real k)"
  by (simp add: is_int_def)

lemma is_int_of_int [simp]: "is_int (real_of_int k)"
  by (simp add: is_int_def)

lemma as_index_jn [simp]: "as_index (jn k) = Some k"
  by (simp add: jn_def)

lemma rdf_jn [simp]: "rdf xs (jn k) = (if k < length xs then xs ! k else NaN)"
  by (simp add: rdf_def)

lemma seq_jn_iff [simp]: "seq x (jn a) \<longleftrightarrow> x = jn a"
  by (auto simp: seq_def jn_def)

lemma jn_add [simp]: "jn a + jn b = jn (a + b)"
  by (simp add: jn_def)

lemma jn_mult [simp]: "jn a * jn b = jn (a * b)"
  by (simp add: jn_def)

lemma jn_inject [simp]: "jn a = jn b \<longleftrightarrow> a = b"
  by (simp add: jn_def)

lemma jn_not_NaN [simp]: "jn a \<noteq> NaN" "NaN \<noteq> jn a"
  by (simp_all add: jn_def)

lemma trunc_of_nat [simp]: "trunc (real k) = int k"
  by (simp add: trunc_def)

lemma rd_jn [simp]: "rd xs (jn k) = (if k < length xs then jn (xs ! k) else NaN)"
  by (simp add: rd_def)

lemma wr_jn [simp]: "wr xs (jn k) v = (if k < length xs then xs[k := toUint8Clamp v] else xs)"
  by (simp add: wr_def)

lemma round_half_even_of_nat [simp]: "round_half_even (real n) = int n"
  by (simp add: round_half_even_def)

lemma toUint8Clamp_jn [simp]: "toUint8Clamp (jn n) = min n 255"
  by (auto simp: jn_def)

lemma toUint8Clamp_le: "toUint8Clamp v \<le> 255"
proof (cases v)
  case (Num a)
  have r: "round_half_even a \<le> \<lfloor>a\<rfloor> + 1"
    by (simp add: round_half_even_def Let_def)
  show ?thesis
  proof (cases "a \<le> 0 \<or> 255 \<le> a")
    case True
    then show ?thesis using Num by auto
  next
    case False
    then have "\<lfloor>a\<rfloor> < 255" by (simp add: floor_less_iff)
    with r have "nat (round_half_even a) \<le> 255" by linarith
    then show ?thesis using Num False by simp
  qed
qed simp_all

lemma rel_index_jn [simp]: "rel_index len (jn k) = min k len"
  by (simp add: rel_index_def jn_def)

lemma subarray_jn:
  "so + m \<le> length src \<Longrightarrow> subarray src (jn so) (jn (so + m)) = take m (drop so src)"
  by (simp add: subarray_def Let_def min_def)

lemma ta_set_jn:
  "ta_set dest source (jn d) =
     (if length dest < length source + d then (dest, Some RangeError)
      else (take d dest @ map (\<lambda>v. min v 255) source @ drop (d + length source) dest, None))"
  by (simp add: ta_set_def jn_def)

subsection \<open>The default decode map\<close>

lemma loop_aux:
  "even (length d - i) \<Longrightarrow> i \<le> length d \<Longrightarrow>
   isDefaultDecode_loop d i (length d) \<longleftrightarrow>
   drop i d = concat (replicate ((length d - i) div 2) [jn 0, jn 1])"
proof (induction "(length d - i) div 2" arbitrary: i)
  case 0
  from 0(2) obtain m where m: "length d - i = 2 * m" unfolding dvd_def by blast
  with 0(1) have "m = 0" by simp
  with m 0(3) have "i = length d" by simp
  then show ?case by (subst isDefaultDecode_loop.simps) simp
next
  case (Suc k)
  then have len: "i + 2 \<le> length d" by linarith
  then have k: "k = (length d - (i + 2)) div 2" using Suc(2) by linarith
  have ev: "even (length d - (i + 2))" using Suc(3) len by auto
  have ih: "isDefaultDecode_loop d (i + 2) (length d) \<longleftrightarrow>
      drop (i + 2) d = concat (replicate k [jn 0, jn 1])"
    using Suc(1)[OF k ev] len k by simp
  have dr: "drop i d = d ! i # d ! (i + 1) # drop (i + 2) d"
  proof -
    have "drop i d = d ! i # drop (Suc i) d"
      using len by (simp add: Cons_nth_drop_Suc)
    moreover have "drop (Suc i) d = d ! (Suc i) # drop (Suc (Suc i)) d"
      using len by (simp add: Cons_nth_drop_Suc)
    ultimately show ?thesis by simp
  qed
  have step: "isDefaultDecode_loop d i (length d) \<longleftrightarrow>
     d ! i = jn 0 \<and> d ! (i + 1) = jn 1 \<and> isDefaultDecode_loop d (i + 2) (length d)"
    using len by (subst isDefaultDecode_loop.simps) auto
  show ?case
    unfolding step ih dr Suc(2)[symmetric] by auto
qed

text \<open>
  Claim C1. \<open>ColorSpace.isDefaultDecode(decode, n)\<close> returns true without a warning
  when \<open>decode\<close> is not an array; when the array's length differs from \<open>2n\<close> it warns
  and returns true; and for an array of length \<open>2n\<close> it returns true exactly when the
  array is \<open>[0, 1, 0, 1, \<dots>]\<close>, so any deviation from the pattern returns false. This
  holds for every \<open>n\<close>, in particular for \<open>n \<ge> 1\<close>.
\<close>

theorem isDefaultDecode_spec:
  "isDefaultDecode None n = (True, []) \<and>
   (length d \<noteq> 2 * n \<longrightarrow>
      isDefaultDecode (Some d) n = (True, [Warn ''The decode map is not the correct length''])) \<and>
   (length d = 2 * n \<longrightarrow>
      isDefaultDecode (Some d) n = (d = concat (replicate n [jn 0, jn 1]), []))"
  using loop_aux [of d 0] by (auto simp: isDefaultDecode_def)

theorem isDefaultDecode_spec_witness:
  "isDefaultDecode (Some [jn 0, jn 1, jn 0, jn 1]) 2 = (True, []) \<and>
   isDefaultDecode (Some [jn 0, jn 1, jn 1, jn 1]) 2 = (False, []) \<and>
   isDefaultDecode (Some [jn 0, jn 1, jn 0]) 2 =
     (True, [Warn ''The decode map is not the correct length''])"
  using isDefaultDecode_spec [of 2 "[jn 0, jn 1, jn 0, jn 1]"]
    isDefaultDecode_spec [of 2 "[jn 0, jn 1, jn 1, jn 1]"]
    isDefaultDecode_spec [of 2 "[jn 0, jn 1, jn 0]"]
  by (simp add: jn_def eval_nat_numeral)

subsection \<open>Conversions\<close>

text \<open>
  Claim C10. \<open>PatternCS\<close> overrides neither conversion method, so \<open>getRgbItem\<close> and
  \<open>getRgbBuffer\<close> of a pattern throw the inherited \<open>unreachable\<close> error, and the
  destination is as it was: no byte has been written.
\<close>

theorem PatternCS_unreachable:
  "getRgbItem (PatternCS b) src srcOffset dest destOffset =
     (dest, Some (Unreachable ''Should not call ColorSpace.getRgbItem'')) \<and>
   getRgbBuffer (PatternCS b) src' srcOffset' count dest destOffset bits alpha01 =
     (dest, Some (Unreachable ''Should not call ColorSpace.getRgbBuffer''))"
  by simp

theorem PatternCS_unreachable_witness:
  "getRgbItem (PatternCS None) [jn 0] (jn 0) [1, 2, 3] (jn 0) =
     ([1, 2, 3], Some (Unreachable ''Should not call ColorSpace.getRgbItem'')) \<and>
   getRgbBuffer (PatternCS (Some DeviceGrayCS)) [0] (jn 0) 1 [1, 2, 3] (jn 0) 8 0 =
     ([1, 2, 3], Some (Unreachable ''Should not call ColorSpace.getRgbBuffer''))"
  using PatternCS_unreachable [of None "[jn 0]" "jn 0" "[1, 2, 3]" "jn 0"]
    PatternCS_unreachable [of "Some DeviceGrayCS" _ _ "[1, 2, 3]" "jn 0" "[0]" "jn 0" 1 8 0]
  by simp

text \<open>
  Claim C6. When the sample at \<open>srcOffset\<close> is the index \<open>i\<close>, \<open>getRgbItem\<close> of an indexed
  space does exactly what \<open>base.getRgbBuffer(lookup, i * base.numComps, 1, dest, destOffset,
  8, 0)\<close> does: the same destination and the same outcome. This holds for every
  natural \<open>i\<close>, in particular for every \<open>i\<close> below the high value.
\<close>

theorem IndexedCS_getRgbItem_forwards:
  "rdf src srcOffset = jn i \<Longrightarrow>
   getRgbItem (IndexedCS base hi lookup) src srcOffset dest destOffset =
     getRgbBuffer base lookup (jn (i * null_to_0 (numComps base))) 1 dest destOffset 8 0"
  by (simp add: numComps_num_def)

theorem IndexedCS_getRgbItem_forwards_witness:
  "rdf [jn 1] (jn 0) = jn 1 \<and>
   getRgbItem (IndexedCS DeviceRgbCS (jn 2) [255, 0, 0, 0, 255, 0]) [jn 1] (jn 0) [0, 0, 0] (jn 0) =
     ([0, 255, 0], None)"
  using IndexedCS_getRgbItem_forwards
    [of "[jn 1]" "jn 0" 1 DeviceRgbCS "jn 2" "[255, 0, 0, 0, 255, 0]" "[0, 0, 0]" "jn 0"]
  by (simp add: null_to_0_def DeviceRgbCS_getRgbBuffer_def subarray_def ta_set_jn)

text \<open>
  Claim C5. \<open>isPassthrough(bits)\<close> is true exactly for \<open>DeviceRGB\<close> with \<open>bits = 8\<close>. When
  \<open>DeviceRGB.getRgbBuffer\<close> is called with \<open>bits = 8\<close> and \<open>alpha01 = 0\<close> on \<open>n\<close> pixels
  that the source holds and the destination has room for, and the samples are bytes (as
  samples of 8 bits are), \<open>dest[destOff .. destOff + 3n)\<close> becomes
  \<open>src[srcOff .. srcOff + 3n)\<close> and the rest of \<open>dest\<close> is unchanged.
\<close>

theorem DeviceRgbCS_passthrough:
  "(isPassthrough cs bits \<longleftrightarrow> cs = DeviceRgbCS \<and> bits = 8) \<and>
   (srcOff + 3 * n \<le> length src \<longrightarrow> destOff + 3 * n \<le> length dest \<longrightarrow>
    (\<forall>v \<in> set (take (3 * n) (drop srcOff src)). v < 256) \<longrightarrow>
    getRgbBuffer DeviceRgbCS src (jn srcOff) n dest (jn destOff) 8 0 =
      (take destOff dest @ take (3 * n) (drop srcOff src) @ drop (destOff + 3 * n) dest, None))"
proof -
  have 1: "isPassthrough cs bits \<longleftrightarrow> cs = DeviceRgbCS \<and> bits = 8"
    by (cases cs) simp_all
  have 2: "getRgbBuffer DeviceRgbCS src (jn srcOff) n dest (jn destOff) 8 0 =
      (take destOff dest @ take (3 * n) (drop srcOff src) @ drop (destOff + 3 * n) dest, None)"
    if a: "srcOff + 3 * n \<le> length src" and b: "destOff + 3 * n \<le> length dest"
      and c: "\<forall>v \<in> set (take (3 * n) (drop srcOff src)). v < 256"
  proof -
    have m: "map (\<lambda>v. min v 255) (take (3 * n) (drop srcOff src)) = take (3 * n) (drop srcOff src)"
      using c by (intro map_idI) auto
    have len: "length (take (3 * n) (drop srcOff src)) = 3 * n"
      using a by simp
    have sub: "subarray src (jn srcOff) (jn srcOff + jn (n * 3)) = take (3 * n) (drop srcOff src)"
      using subarray_jn [of srcOff "3 * n" src] a by (simp add: mult.commute)
    show ?thesis
      using b unfolding getRgbBuffer.simps DeviceRgbCS_getRgbBuffer_def sub ta_set_jn m len
      by simp
  qed
  show ?thesis using 1 2 by blast
qed

theorem DeviceRgbCS_passthrough_witness:
  "isPassthrough DeviceRgbCS 8 \<and> \<not> isPassthrough DeviceRgbCS 16 \<and>
   \<not> isPassthrough DeviceGrayCS 8 \<and>
   getRgbBuffer DeviceRgbCS [10, 20, 30, 40, 50, 60] (jn 0) 2 [0, 0, 0, 0, 0, 0] (jn 0) 8 0 =
     ([10, 20, 30, 40, 50, 60], None)"
  using DeviceRgbCS_passthrough [of DeviceRgbCS 8 0 2 "[10, 20, 30, 40, 50, 60]" 0 "[0, 0, 0, 0, 0, 0]"]
    DeviceRgbCS_passthrough [of DeviceRgbCS 16 0 0 "[]" 0 "[]"]
    DeviceRgbCS_passthrough [of DeviceGrayCS 8 0 0 "[]" 0 "[]"]
  by simp

subsection \<open>Construction and parsing\<close>

lemma typed_array_length_jn [simp]: "typed_array_length (jn k) = Inr k"
  by (simp add: jn_def)

lemma numComps_num_mult [simp]: "numComps_num base * jn hv = jn (null_to_0 (numComps base) * hv)"
  by (simp add: numComps_num_def)

lemma toUintN_jn [simp]: "toUintN w (jn n) = n mod 2 ^ w"
  by (simp add: jn_def nat_mod_distrib nat_power_eq)

text \<open>
  Claim C4, as stated, fails: a \<open>Uint8Array\<close> lookup is stored as it is, whatever its
  length. Here the base has one component and the high value is 2, and the stored
  lookup has one byte.
\<close>

theorem new_IndexedCS_counterexample:
  "new_IndexedCS DeviceGrayCS (jn 2) (LookupBytes [7]) = Inr (IndexedCS DeviceGrayCS (jn 2) [7]) \<and>
   length [7 :: nat] \<noteq> null_to_0 (numComps DeviceGrayCS) * 2"
  by (simp add: new_IndexedCS_def null_to_0_def)

text \<open>
  Claim C4, amended. For a high value that is a natural number, the constructor of
  \<open>IndexedCS\<close> succeeds on a stream and on a string, and the stored lookup has
  \<open>base.numComps * highVal\<close> bytes (\<open>numComps\<close> \<open>null\<close> counting as 0); a \<open>Uint8Array\<close> is
  stored unchanged, so its length is the one it came with; any other lookup makes the
  constructor throw the \<open>FormatError\<close>.
\<close>

theorem new_IndexedCS_lookup:
  "(\<exists>lk. new_IndexedCS base (jn hv) (LookupStream s) = Inr (IndexedCS base (jn hv) lk) \<and>
         length lk = null_to_0 (numComps base) * hv) \<and>
   (\<exists>lk. new_IndexedCS base (jn hv) (LookupString str) = Inr (IndexedCS base (jn hv) lk) \<and>
         length lk = null_to_0 (numComps base) * hv) \<and>
   new_IndexedCS base highVal (LookupBytes b) = Inr (IndexedCS base highVal b) \<and>
   new_IndexedCS base highVal LookupOther = Inl (FormatError ''Unrecognized lookup table'')"
  by (simp add: new_IndexedCS_def getBytes_def Let_def)

theorem new_IndexedCS_lookup_witness:
  "new_IndexedCS DeviceRgbCS (jn 2) (LookupStream [255, 0, 0, 0, 255, 0, 9, 9]) =
     Inr (IndexedCS DeviceRgbCS (jn 2) [255, 0, 0, 0, 255, 0]) \<and>
   new_IndexedCS DeviceGrayCS (jn 3) (LookupString [65, 300]) =
     Inr (IndexedCS DeviceGrayCS (jn 3) [65, 44, 0]) \<and>
   new_IndexedCS DeviceGrayCS (jn 3) LookupOther = Inl (FormatError ''Unrecognized lookup table'')"
  using new_IndexedCS_lookup [of DeviceRgbCS 2 "[255, 0, 0, 0, 255, 0, 9, 9]" "[]" "jn 2" "[]"]
    new_IndexedCS_lookup [of DeviceGrayCS 3 "[]" "[65, 300]" "jn 3" "[]"]
  by (simp add: new_IndexedCS_def getBytes_def null_to_0_def charCodeAt_def upt_conv_Cons)


lemma parseToIR_ICCBased_unfold:
  assumes "fetchIfRef xref cs = PArray arr"
    and "fetchIfRef xref (item arr 0) = PName ''ICCBased''"
    and "fetchIfRef xref (item arr 1) = PStream dict_get bytes"
  shows "parseToIR (Suc fuel) xref res F cs =
     (if truthy (dict_get ''Alternate'')
      then bind (parseToIR fuel xref res F (dict_get ''Alternate'')) (\<lambda>altIR.
           bind (fromIR altIR) (\<lambda>altCS.
             if numComps_eq (numComps altCS) (dict_get ''N'') then ok altIR
             else logged
               [Warn ''ICCBased color space: Ignoring incorrect /Alternate entry.'']
               (icc_device (dict_get ''N''))))
      else icc_device (dict_get ''N''))"
  using assms
  by (simp add: parseToIR.simps(2) parseToIR_array.simps Let_def)

text \<open>
  Claim C7. For a descriptor \<open>[/ICCBased stream]\<close>, with \<open>N\<close> and \<open>Alternate\<close> read from the
  stream's dictionary: when the alternate is present and parses to an IR whose colour
  space has \<open>N\<close> components, \<open>parseToIR\<close> returns that IR; when the component count
  differs it warns and goes on as when the alternate is absent: \<open>N = 1\<close> gives
  \<open>DeviceGrayCS\<close>, \<open>N = 3\<close> \<open>DeviceRgbCS\<close>, \<open>N = 4\<close> \<open>DeviceCmykCS\<close>, and any other \<open>N\<close>
  the \<open>FormatError\<close>. The depth bound of the call is one more than the bound within
  which the alternate parses.
\<close>

theorem parseToIR_ICCBased:
  assumes "fetchIfRef xref cs = PArray arr"
    and "fetchIfRef xref (item arr 0) = PName ''ICCBased''"
    and "fetchIfRef xref (item arr 1) = PStream dict_get bytes"
  shows
   "(truthy (dict_get ''Alternate'') \<longrightarrow>
     parseToIR fuel xref res F (dict_get ''Alternate'') = (logA, Inr altIR) \<longrightarrow>
     fromIR altIR = (logB, Inr altCS) \<longrightarrow>
       (numComps_eq (numComps altCS) (dict_get ''N'') \<longrightarrow>
          parseToIR (Suc fuel) xref res F cs = (logA @ logB, Inr altIR)) \<and>
       (\<not> numComps_eq (numComps altCS) (dict_get ''N'') \<longrightarrow>
          parseToIR (Suc fuel) xref res F cs =
            (logA @ logB @ [Warn ''ICCBased color space: Ignoring incorrect /Alternate entry.''],
             snd (icc_device (dict_get ''N''))))) \<and>
    (\<not> truthy (dict_get ''Alternate'') \<longrightarrow>
       parseToIR (Suc fuel) xref res F cs = ([], snd (icc_device (dict_get ''N'')))) \<and>
    snd (icc_device (PNum 1)) = Inr IR_DeviceGrayCS \<and>
    snd (icc_device (PNum 3)) = Inr IR_DeviceRgbCS \<and>
    snd (icc_device (PNum 4)) = Inr IR_DeviceCmykCS \<and>
    (N \<noteq> PNum 1 \<longrightarrow> N \<noteq> PNum 3 \<longrightarrow> N \<noteq> PNum 4 \<longrightarrow>
       snd (icc_device N) = Inl (FormatError ''unrecognized color space object''))"
  unfolding parseToIR_ICCBased_unfold [OF assms]
  by (auto simp: bind_def logged_def ok_def throw_def icc_device_def)

theorem parseToIR_ICCBased_witness:
  "parseToIR (Suc (Suc 0)) (\<lambda>_. PNull) PNull (\<lambda>_ _ _. [])
     (PArray [PName ''ICCBased'',
        PStream (\<lambda>k. if k = ''N'' then PNum 3
                     else if k = ''Alternate'' then PName ''DeviceRGB'' else PUndefined) []]) =
     ([], Inr IR_DeviceRgbCS) \<and>
   parseToIR (Suc (Suc 0)) (\<lambda>_. PNull) PNull (\<lambda>_ _ _. [])
     (PArray [PName ''ICCBased'',
        PStream (\<lambda>k. if k = ''N'' then PNum 3
                     else if k = ''Alternate'' then PName ''DeviceGray'' else PUndefined) []]) =
     ([Warn ''ICCBased color space: Ignoring incorrect /Alternate entry.''], Inr IR_DeviceRgbCS) \<and>
   parseToIR (Suc (Suc 0)) (\<lambda>_. PNull) PNull (\<lambda>_ _ _. [])
     (PArray [PName ''ICCBased'', PStream (\<lambda>k. if k = ''N'' then PNum 2 else PUndefined) []]) =
     ([], Inl (FormatError ''unrecognized color space object''))"
proof -
  let ?x = "\<lambda>_ :: nat. PNull" and ?F = "\<lambda>(_ :: pdfobj) (_ :: jsnum list) (_ :: jsnum). [] :: jsnum list"
  let ?d1 = "\<lambda>k. if k = ''N'' then PNum 3
                else if k = ''Alternate'' then PName ''DeviceRGB'' else PUndefined"
  let ?d2 = "\<lambda>k. if k = ''N'' then PNum 3
                else if k = ''Alternate'' then PName ''DeviceGray'' else PUndefined"
  let ?d3 = "\<lambda>k. if k = ''N'' then PNum 2 else PUndefined"
  have 1: "parseToIR (Suc (Suc 0)) ?x PNull ?F (PArray [PName ''ICCBased'', PStream ?d1 []]) =
      ([], Inr IR_DeviceRgbCS)"
    using parseToIR_ICCBased [where xref = ?x and cs = "PArray [PName ''ICCBased'', PStream ?d1 []]"
        and arr = "[PName ''ICCBased'', PStream ?d1 []]" and dict_get = ?d1 and bytes = "[]"
        and fuel = "Suc 0" and res = PNull and F = ?F and logA = "[]" and altIR = IR_DeviceRgbCS
        and logB = "[]" and altCS = DeviceRgbCS and N = "PNum 2"]
    by (simp add: fetchIfRef_def item_def parseToIR.simps(2) ok_def)
  have 2: "parseToIR (Suc (Suc 0)) ?x PNull ?F (PArray [PName ''ICCBased'', PStream ?d2 []]) =
      ([Warn ''ICCBased color space: Ignoring incorrect /Alternate entry.''], Inr IR_DeviceRgbCS)"
    using parseToIR_ICCBased [where xref = ?x and cs = "PArray [PName ''ICCBased'', PStream ?d2 []]"
        and arr = "[PName ''ICCBased'', PStream ?d2 []]" and dict_get = ?d2 and bytes = "[]"
        and fuel = "Suc 0" and res = PNull and F = ?F and logA = "[]" and altIR = IR_DeviceGrayCS
        and logB = "[]" and altCS = DeviceGrayCS and N = "PNum 2"]
    by (simp add: fetchIfRef_def item_def parseToIR.simps(2) ok_def)
  have 3: "parseToIR (Suc (Suc 0)) ?x PNull ?F (PArray [PName ''ICCBased'', PStream ?d3 []]) =
      ([], Inl (FormatError ''unrecognized color space object''))"
    using parseToIR_ICCBased [where xref = ?x and cs = "PArray [PName ''ICCBased'', PStream ?d3 []]"
        and arr = "[PName ''ICCBased'', PStream ?d3 []]" and dict_get = ?d3 and bytes = "[]"
        and fuel = "Suc 0" and res = PNull and F = ?F and logA = "[]" and altIR = IR_DeviceGrayCS
        and logB = "[]" and altCS = DeviceGrayCS and N = "PNum 2"]
    by (simp add: fetchIfRef_def item_def)
  show ?thesis using 1 2 3 by simp
qed

subsection \<open>Every byte written is a byte\<close>

lemma obw_refl [simp]: "only_bytes_written d d"
  by (simp add: only_bytes_written_def)

lemma obw_trans: "only_bytes_written a b \<Longrightarrow> only_bytes_written b c \<Longrightarrow> only_bytes_written a c"
  unfolding only_bytes_written_def by (metis (no_types, lifting))

lemma obw_wr [simp]: "only_bytes_written d (wr d i v)"
  by (auto simp: only_bytes_written_def wr_def nth_list_update toUint8Clamp_le split: option.splits)

lemma obw_wr_trans: "only_bytes_written a b \<Longrightarrow> only_bytes_written a (wr b i v)"
  by (rule obw_trans [OF _ obw_wr])

lemma obw_write3 [simp]: "only_bytes_written d (write3 d i r g b)"
  by (simp add: write3_def Let_def obw_wr_trans)

lemma obw_DeviceGrayCS_getRgbItem [simp]:
  "only_bytes_written d (DeviceGrayCS_getRgbItem src so d i)"
  by (simp add: DeviceGrayCS_getRgbItem_def Let_def obw_wr_trans)

lemma obw_write3_trans: "only_bytes_written a d \<Longrightarrow> only_bytes_written a (write3 d i r g b)"
  by (rule obw_trans [OF _ obw_write3])

lemma obw_DeviceRgbCS_getRgbItem [simp]:
  "only_bytes_written d (DeviceRgbCS_getRgbItem src so d i)"
  by (simp add: DeviceRgbCS_getRgbItem_def Let_def obw_wr_trans)

lemma obw_DeviceCmykCS_convertToRgb [simp]:
  "only_bytes_written d (DeviceCmykCS_convertToRgb src so sc d i)"
  unfolding DeviceCmykCS_convertToRgb_def Let_def
  by (intro obw_wr_trans obw_refl)

lemma obw_CalGrayCS_convertToRgb [simp]:
  "only_bytes_written d (CalGrayCS_convertToRgb cs src so d i sc)"
  by (simp add: CalGrayCS_convertToRgb_def Let_def)

lemma obw_CalRGBCS_convertToRgb [simp]:
  "only_bytes_written d (CalRGBCS_convertToRgb cs src so d i sc)"
  by (simp add: CalRGBCS_convertToRgb_def Let_def)

lemma obw_LabCS_convertToRgb [simp]:
  "only_bytes_written d (LabCS_convertToRgb cs src so mv d i)"
  by (simp add: LabCS_convertToRgb_def Let_def)

lemma obw_DeviceCmykCS_convertToRgb_trans:
  "only_bytes_written a d \<Longrightarrow> only_bytes_written a (DeviceCmykCS_convertToRgb src so sc d i)"
  by (rule obw_trans [OF _ obw_DeviceCmykCS_convertToRgb])

lemma obw_CalGrayCS_convertToRgb_trans:
  "only_bytes_written a d \<Longrightarrow> only_bytes_written a (CalGrayCS_convertToRgb cs src so d i sc)"
  by (rule obw_trans [OF _ obw_CalGrayCS_convertToRgb])

lemma obw_CalRGBCS_convertToRgb_trans:
  "only_bytes_written a d \<Longrightarrow> only_bytes_written a (CalRGBCS_convertToRgb cs src so d i sc)"
  by (rule obw_trans [OF _ obw_CalRGBCS_convertToRgb])

lemma obw_LabCS_convertToRgb_trans:
  "only_bytes_written a d \<Longrightarrow> only_bytes_written a (LabCS_convertToRgb cs src so mv d i)"
  by (rule obw_trans [OF _ obw_LabCS_convertToRgb])

lemma obw_DeviceGrayCS_loop:
  "only_bytes_written d0 d \<Longrightarrow> only_bytes_written d0 (DeviceGrayCS_loop n sc src j d q a)"
  by (induction n arbitrary: j d q) (simp_all add: Let_def obw_wr_trans)

lemma obw_DeviceRgbCS_loop:
  "only_bytes_written d0 d \<Longrightarrow> only_bytes_written d0 (DeviceRgbCS_loop n sc src j d q a)"
  by (induction n arbitrary: j d q) (simp_all add: Let_def obw_wr_trans)

lemma obw_DeviceCmykCS_loop:
  "only_bytes_written d0 d \<Longrightarrow> only_bytes_written d0 (DeviceCmykCS_loop n sc src j d q a)"
  by (induction n arbitrary: j d q) (simp_all add: Let_def obw_DeviceCmykCS_convertToRgb_trans)

lemma obw_CalGrayCS_loop:
  "only_bytes_written d0 d \<Longrightarrow> only_bytes_written d0 (CalGrayCS_loop n cs sc src j d q a)"
  by (induction n arbitrary: j d q) (simp_all add: Let_def obw_CalGrayCS_convertToRgb_trans)

lemma obw_CalRGBCS_loop:
  "only_bytes_written d0 d \<Longrightarrow> only_bytes_written d0 (CalRGBCS_loop n cs sc src j d q a)"
  by (induction n arbitrary: j d q) (simp_all add: Let_def obw_CalRGBCS_convertToRgb_trans)

lemma obw_LabCS_loop:
  "only_bytes_written d0 d \<Longrightarrow> only_bytes_written d0 (LabCS_loop n cs mv src j d q a)"
  by (induction n arbitrary: j d q) (simp_all add: Let_def obw_LabCS_convertToRgb_trans)

lemma obw_ta_set: "only_bytes_written d (fst (ta_set d source off))"
proof -
  have *: "only_bytes_written d (take t d @ map (\<lambda>v. toUint8Clamp (jn v)) source
                @ drop (t + length source) d)"
    if "length source + t \<le> length d" for t
    using that
    by (auto simp: only_bytes_written_def nth_append min_def)
  define t where "t = (case off of Num a \<Rightarrow> nat (trunc a) | _ \<Rightarrow> 0)"
  have "fst (ta_set d source off) = d \<or>
        (length source + t \<le> length d \<and>
         fst (ta_set d source off) =
           take t d @ map (\<lambda>v. toUint8Clamp (jn v)) source @ drop (t + length source) d)"
    by (cases off) (auto simp del: toUint8Clamp_jn simp: ta_set_def Let_def not_less t_def)
  then show ?thesis using * [of t] by auto
qed

lemma obw_DeviceRgbCS_getRgbBuffer:
  "only_bytes_written d (fst (DeviceRgbCS_getRgbBuffer src so n d q bits a))"
  by (simp add: DeviceRgbCS_getRgbBuffer_def Let_def obw_ta_set obw_DeviceRgbCS_loop)

lemma obw_fold_wr:
  "only_bytes_written d0 d \<Longrightarrow>
   only_bytes_written d0 (fold (\<lambda>j buf. wr buf (pos j) (val j)) js d)"
  by (induction js arbitrary: d) (simp_all add: obw_wr_trans)

lemma obw_mutual:
  "only_bytes_written dest (fst (getRgbItem cs src so dest dof))"
  "only_bytes_written dest (fst (getRgbBuffer cs src' so' count dest dof bits a))"
  "only_bytes_written dest (fst (IndexedCS_loop n base od lookup src' so' dest dof a))"
  "only_bytes_written baseBuf
     (fst (AlternateCS_loop n base tintFn nc scale src' so' baseBuf pos tinted))"
proof (induction cs src so dest dof and cs src' so' count dest dof bits a
    and n base od lookup src' so' dest dof a
    and n base tintFn nc scale src' so' baseBuf pos tinted
    rule: getRgbItem_getRgbBuffer_IndexedCS_loop_AlternateCS_loop.induct)
  case (16 base highVal lookup src srcOffset count dest destOffset bits alpha01)
  then show ?case
    by (auto split: sum.splits)
next
  case (17 ncomps base tintFn tmpBuf src srcOffset count dest destOffset bits alpha01)
  note ih1 = 17(1) [OF refl refl refl refl refl refl]
  note ih2 = 17(2) [OF refl refl refl refl refl refl _ refl]
  show ?case
    using ih1 ih2 [OF sym]
    by (auto simp: Let_def split: prod.splits option.splits if_splits)
next
  case (20 n base outputDelta lookup src srcOffset dest destOffset alpha01)
  note ih1 = 20(1) [OF refl]
  note ih2 = 20(2) [OF refl _ refl]
  show ?case
    using ih1 ih2 [OF sym]
    by (auto simp: Let_def split: prod.splits option.splits intro: obw_trans)
next
  case (22 n base tintFn ncomps scale src srcOffset baseBuf pos tinted)
  note ih1 = 22(1) [OF refl refl refl refl _ refl]
  note ih2 = 22(2) [OF refl refl refl refl]
  note ih3 = 22(3) [OF refl refl refl refl _ _ refl]
  show ?case
  proof (cases "usesZeroToOneRange base")
    case True
    show ?thesis
      using True obw_trans [OF obw_fold_wr [OF obw_refl] ih1 [OF True]]
      by (simp add: Let_def)
  next
    case False
    show ?thesis
      using False ih2 [OF False] ih3 [OF False sym]
      by (auto simp: Let_def split: prod.splits option.splits intro: obw_trans)
  qed
qed (simp_all add: obw_DeviceRgbCS_getRgbBuffer DeviceGrayCS_getRgbBuffer_def
      DeviceCmykCS_getRgbBuffer_def CalGrayCS_getRgbBuffer_def CalRGBCS_getRgbBuffer_def
      LabCS_getRgbBuffer_def Let_def obw_DeviceGrayCS_loop obw_DeviceCmykCS_loop
      obw_CalGrayCS_loop obw_CalRGBCS_loop obw_LabCS_loop)

text \<open>
  Claim C8. Whatever the colour space and the input, \<open>getRgbItem\<close> and \<open>getRgbBuffer\<close>
  keep the length of \<open>dest\<close>, and every element of \<open>dest\<close> that they change is a value in
  0..255: each store converts the Number, be it negative, above 255, NaN (the square
  root of a negative Lab component) or infinite, to a byte. This holds also when the
  call throws.
\<close>

theorem conversions_write_bytes:
  "(getRgbItem cs src srcOffset dest destOffset = (dest', e) \<longrightarrow>
      length dest' = length dest \<and>
      (\<forall>i < length dest. dest' ! i = dest ! i \<or> dest' ! i \<le> 255)) \<and>
   (getRgbBuffer cs samples srcOffset' count dest destOffset' bits alpha01 = (dest'', e') \<longrightarrow>
      length dest'' = length dest \<and>
      (\<forall>i < length dest. dest'' ! i = dest ! i \<or> dest'' ! i \<le> 255))"
  using obw_mutual(1) [of dest cs src srcOffset destOffset]
    obw_mutual(2) [of dest cs samples srcOffset' count destOffset' bits alpha01]
  unfolding only_bytes_written_def by (metis fst_conv)

lemma rdf_map_jn [simp]: "rdf (map jn xs) i = rd xs i"
  by (simp add: rdf_def rd_def split: option.splits)

lemma is_int_numeral [simp]: "is_int (numeral k)" "is_int 0" "is_int 1"
  by (simp_all add: is_int_def)

lemma minus_Num [simp]: "Num a - Num b = Num (a - b)"
  by (simp add: minus_jsnum_def)

lemmas js_eval = jn_def ji_def rd_def rdf_def wr_def Let_def shl1_def round_half_even_def

theorem conversions_write_bytes_witness:
  "getRgbItem DeviceCmykCS [jn 0, jn 0, jn 0, jn 0] (jn 0) [300, 300, 300, 300] (jn 0) =
     ([255, 255, 255, 300], None) \<and>
   [255, 255, 255, 300 :: nat] ! 2 \<le> 255 \<and>
   getRgbBuffer DeviceGrayCS [0, 127, 255] (jn 0) 3 [300, 300, 300, 300, 300, 300, 300, 300, 300] (jn 0) 8 0 =
     ([0, 0, 0, 127, 127, 127, 255, 255, 255], None) \<and>
   [0, 0, 0, 127, 127, 127, 255, 255, 255 :: nat] ! 8 \<le> 255"
proof -
  have 1: "getRgbItem DeviceCmykCS [jn 0, jn 0, jn 0, jn 0] (jn 0) [300, 300, 300, 300] (jn 0) =
     ([255, 255, 255, 300], None)"
    by (simp add: DeviceCmykCS_convertToRgb_def js_eval)
  have 2: "getRgbBuffer DeviceGrayCS [0, 127, 255] (jn 0) 3 [300, 300, 300, 300, 300, 300, 300, 300, 300] (jn 0) 8 0 =
     ([0, 0, 0, 127, 127, 127, 255, 255, 255], None)"
    by (simp add: DeviceGrayCS_getRgbBuffer_def numeral_3_eq_3 js_eval)
  from conversions_write_bytes [where cs = DeviceCmykCS and src = "[jn 0, jn 0, jn 0, jn 0]"
      and srcOffset = "jn 0" and dest = "[300, 300, 300, 300]" and destOffset = "jn 0"
      and dest' = "[255, 255, 255, 300]" and e = None] 1
  have 3: "\<forall>i < 4. [255, 255, 255, 300 :: nat] ! i = [300, 300, 300, 300] ! i \<or>
            [255, 255, 255, 300 :: nat] ! i \<le> 255"
    by simp
  from conversions_write_bytes [where cs = DeviceGrayCS and samples = "[0, 127, 255]"
      and srcOffset' = "jn 0" and count = 3 and destOffset' = "jn 0" and bits = 8 and ?alpha01.0 = 0
      and dest = "[300, 300, 300, 300, 300, 300, 300, 300, 300]"
      and dest'' = "[0, 0, 0, 127, 127, 127, 255, 255, 255]" and e' = None] 2
  have 4: "\<forall>i < 9. [0, 0, 0, 127, 127, 127, 255, 255, 255 :: nat] ! i \<le> 255"
    by (auto simp: nth_Cons' split: if_splits)
  from 3 have 5: "[255, 255, 255, 300 :: nat] ! 2 \<le> 255"
    by simp
  from 4 have 6: "[0, 0, 0, 127, 127, 127, 255, 255, 255 :: nat] ! 8 \<le> 255"
    by simp
  show ?thesis using 1 2 5 6 by blast
qed

subsection \<open>Resizing\<close>

lemma resize_pixel_snd [simp]:
  "snd (resize_pixel src xs py a j st) = snd st + 3 + a"
  by (simp add: resize_pixel_def Let_def)

lemma resize_pixel_length [simp]:
  "length (fst (resize_pixel src xs py a j st)) = length (fst st)"
  by (simp add: resize_pixel_def Let_def)

lemma resize_pixel_first:
  "snd st < length (fst st) \<Longrightarrow>
   fst (resize_pixel src xs py a j st) ! snd st = toUint8Clamp (rd src (py + rd xs (jn j)))"
  by (simp add: resize_pixel_def Let_def)

lemma fold_resize_pixel:
  "snd (fold (resize_pixel src xs py a) [0..<n] st) = snd st + n * (3 + a) \<and>
   length (fst (fold (resize_pixel src xs py a) [0..<n] st)) = length (fst st)"
  by (induction n) (simp_all add: algebra_simps)

lemma fold_resize_pixel_last:
  assumes "snd st + n * (3 + a) < length (fst st)"
  shows "fst (fold (resize_pixel src xs py a) [0..<Suc n] st) ! (snd st + n * (3 + a)) =
           toUint8Clamp (rd src (py + rd xs (jn n)))"
proof -
  let ?st = "fold (resize_pixel src xs py a) [0..<n] st"
  have "fst (resize_pixel src xs py a n ?st) ! snd ?st =
          toUint8Clamp (rd src (py + rd xs (jn n)))"
    using assms fold_resize_pixel [of src xs py a n st]
    by (intro resize_pixel_first) simp
  then show ?thesis
    using fold_resize_pixel [of src xs py a n st] by simp
qed

lemma jn_div_self: "0 < w \<Longrightarrow> jn w / jn w = Num 1"
  by (simp add: jn_def)

lemma xScaled_elem:
  "toUintN 16 (Math_floor (jn i * Num 1) * jn COMPONENTS) = (i * 3) mod 65536"
proof -
  have "Math_floor (jn i * Num 1) * jn COMPONENTS = jn (i * 3)"
    by (simp add: jn_def COMPONENTS_def)
  then show ?thesis by simp
qed

lemma py_zero: "Math_floor (jn 0 * Num 1) * jn k = Num 0"
  by (simp add: jn_def)

lemma Num_0_plus_jn: "Num 0 + jn k = jn k"
  by (simp add: jn_def)

lemma resizeRgbImage_one_row:
  assumes "n * 3 < length dest"
  shows "resizeRgbImage src dest (Suc n) 1 (Suc n) 1 0 ! (n * 3) =
           toUint8Clamp (rd src (jn ((n * 3) mod 65536)))"
proof -
  let ?xs = "map (\<lambda>i. (i * 3) mod 65536) [0..<Suc n]"
  have one: "[0..<Suc 0] = [0]" by simp
  have "resizeRgbImage src dest (Suc n) 1 (Suc n) 1 0 =
          fst (fold (resize_pixel src ?xs (Num 0) 0) [0..<Suc n] (dest, 0))"
    unfolding resizeRgbImage_def resize_row_def Let_def
    by (simp add: jn_div_self py_zero xScaled_elem one del: upt_Suc)
  moreover have "fst (fold (resize_pixel src ?xs (Num 0) 0) [0..<Suc n] (dest, 0)) ! (n * 3) =
      toUint8Clamp (rd src (Num 0 + rd ?xs (jn n)))"
    using fold_resize_pixel_last [of "(dest, 0)" n 0 src ?xs "Num 0"] assms by simp
  moreover have "rd ?xs (jn n) = jn ((n * 3) mod 65536)"
    by (simp del: upt_Suc)
  ultimately show ?thesis by (simp only: Num_0_plus_jn)
qed

text \<open>
  Claim C9 holds for the normalisation of \<open>alpha01\<close> and fails for the copy: the table
  \<open>xScaled\<close> of source offsets is a \<open>Uint16Array\<close>, so the offset \<open>3 * j\<close> of column \<open>j\<close> is
  stored modulo 65536. For a row of 21847 pixels at identical source and destination
  size, the last pixel of the source is (9, 9, 9) and all others are 0; its offset 65538
  is stored as 2, and the first byte of the last output pixel is the 0 at \<open>src[2]\<close>, not
  the 9 at \<open>src[65538]\<close>.
\<close>

theorem resizeRgbImage_identity_wraps:
  "(replicate 65538 0 @ [9, 9, 9]) ! 65538 = (9 :: nat) \<and>
   resizeRgbImage (replicate 65538 0 @ [9, 9, 9]) (replicate 65541 7) 21847 1 21847 1 0 ! 65538 = 0 \<and>
   resizeRgbImage src dest w1 h1 w2 h2 2 = resizeRgbImage src dest w1 h1 w2 h2 0"
proof -
  have 1: "(replicate 65538 0 @ [9, 9, 9]) ! 65538 = (9 :: nat)"
    by (simp add: nth_append)
  have "resizeRgbImage (replicate 65538 0 @ [9, 9, 9]) (replicate 65541 7) 21847 1 21847 1 0
          ! (21846 * 3) =
        toUint8Clamp (rd (replicate 65538 0 @ [9, 9, 9]) (jn ((21846 * 3) mod 65536)))"
    using resizeRgbImage_one_row [of 21846 "replicate 65541 7" "replicate 65538 0 @ [9, 9, 9]"]
    by simp
  then have 2: "resizeRgbImage (replicate 65538 0 @ [9, 9, 9]) (replicate 65541 7)
      21847 1 21847 1 0 ! 65538 = 0"
    by (simp add: nth_append)
  have 3: "resizeRgbImage src dest w1 h1 w2 h2 2 = resizeRgbImage src dest w1 h1 w2 h2 0"
    by (simp add: resizeRgbImage_def)
  show ?thesis using 1 2 3 by blast
qed

theorem resizeRgbImage_identity_wraps_witness:
  "resizeRgbImage (replicate 65538 0 @ [9, 9, 9]) (replicate 65541 7) 21847 1 21847 1 0 ! 65538 = 0"
  using resizeRgbImage_identity_wraps by blast

subsection \<open>A tinted colour over Lab\<close>

lemma toUint8Clamp_sqrt:
  assumes "0 \<le> a" "(real k)\<^sup>2 \<le> a * 65025" "a * 65025 < (real k + 1 / 2)\<^sup>2" "0 < k" "k < 255"
  shows "toUint8Clamp (Math_sqrt (Num a) * jn 255) = k"
proof -
  define v where "v = sqrt a * 255"
  have v: "v = sqrt (a * 65025)"
    by (simp add: v_def real_sqrt_mult)
  have lo: "real k \<le> v"
    unfolding v using assms(2) by (simp add: real_le_rsqrt)
  have hi: "v < real k + 1 / 2"
    unfolding v using assms(3) by (intro real_less_lsqrt) simp_all
  have fl: "\<lfloor>v\<rfloor> = int k"
    using lo hi by (intro floor_unique) simp_all
  have "round_half_even v = int k"
    using lo hi by (simp add: round_half_even_def fl)
  moreover have "0 < v" "v < 255"
    using lo hi assms(4,5) by simp_all
  ultimately have "toUint8Clamp (Num v) = k"
    by simp
  then show ?thesis
    using assms(1) by (simp add: v_def jn_def)
qed

lemma toUint8Clamp_sqrt_neg: "a < 0 \<Longrightarrow> toUint8Clamp (Math_sqrt (Num a) * jn 255) = 0"
  by (simp add: jn_def)

lemma toUint8Clamp_sqrt_0: "toUint8Clamp (Math_sqrt (Num 0) * jn 255) = 0"
  by (simp add: jn_def)

lemma Lab_item_black:
  assumes "XW cs = jn 1" "YW cs = jn 1" "ZW cs = jn 1" "amin cs = Num (- 100)" "amax cs = jn 100"
    "bmin cs = Num (- 100)" "bmax cs = jn 100"
    and "rdf src so = jn 0" "rdf src (so + jn 1) = jn 0" "rdf src (so + jn 2) = jn 0"
  shows "LabCS_convertToRgb cs src so None dest q =
     wr (wr (wr dest q (jn 0)) (q + jn 1) (jn 0)) (q + jn 2) (jn 0)"
proof -
  have "LabCS_convertToRgb cs src so None dest q =
     write3 dest q (Math_sqrt (Num 0) * jn 255) (Math_sqrt (Num 0) * jn 255)
       (Math_sqrt (Num 0) * jn 255)"
    using assms
    by (simp add: LabCS_convertToRgb_def decode_def fn_g_def jn_def Let_def
        less_eq_jsnum_def del: Math_sqrt.simps)
  then show ?thesis
    by (simp add: write3_def wr_def toUint8Clamp_sqrt_0 del: Math_sqrt.simps split: option.splits)
qed

lemma Lab_buffer_black:
  assumes "XW cs = jn 1" "YW cs = jn 1" "ZW cs = jn 1" "amin cs = Num (- 100)" "amax cs = jn 100"
    "bmin cs = Num (- 100)" "bmax cs = jn 100"
    and "rdf src so = jn 0" "rdf src (so + jn 1) = jn 0" "rdf src (so + jn 2) = jn 0"
  shows "LabCS_convertToRgb cs src so (Some (Num 255)) dest q =
     wr (wr (wr dest q (jn 0)) (q + jn 1) (jn 48)) (q + jn 2) (jn 133)"
proof -
  have "LabCS_convertToRgb cs src so (Some (Num 255)) dest q =
     write3 dest q (Math_sqrt (Num (- (1037372013 / 4877800000))) * jn 255)
       (Math_sqrt (Num (347872559 / 9755600000)) * jn 255)
       (Math_sqrt (Num (1331527429 / 4877800000)) * jn 255)"
    using assms
    by (simp add: LabCS_convertToRgb_def decode_def fn_g_def jn_def Let_def
        less_eq_jsnum_def del: Math_sqrt.simps)
  moreover have "toUint8Clamp (Math_sqrt (Num (- (1037372013 / 4877800000))) * jn 255) = 0"
    by (rule toUint8Clamp_sqrt_neg) simp
  moreover have "toUint8Clamp (Math_sqrt (Num (347872559 / 9755600000)) * jn 255) = 48"
    by (rule toUint8Clamp_sqrt) (simp_all add: power2_eq_square)
  moreover have "toUint8Clamp (Math_sqrt (Num (1331527429 / 4877800000)) * jn 255) = 133"
    by (rule toUint8Clamp_sqrt) (simp_all add: power2_eq_square)
  ultimately show ?thesis
    by (simp add: write3_def wr_def del: Math_sqrt.simps split: option.splits)
qed

lemma maxVal_8: "ji (shl1 8) - jn (Suc 0) = Num 255"
  by (simp add: shl1_def ji_def jn_def minus_jsnum_def)

lemma maxVal_1: "ji (shl1 (Suc 0)) - jn (Suc 0) = Num 1"
  by (simp add: shl1_def ji_def jn_def minus_jsnum_def)

lemma replicate_3: "replicate 3 x = [x, x, x]"
  by (simp add: numeral_3_eq_3)

lemma scale_mult: "jn 0 * (jn 1 / Num a) = (if a = 0 then NaN else jn 0)"
  by (simp add: jn_def inf_of_def)

lemma callTintFn_const:
  "length buf = 3 \<Longrightarrow> callTintFn (\<lambda>src srcOffset. [a, b, c]) src so buf = [a, b, c]"
  by (simp add: callTintFn_def)

lemmas alt_eval = new_AlternateCS_def null_to_0_def callTintFn_const Lab_item_black
  Lab_buffer_black LabCS_getRgbBuffer_def maxVal_8 maxVal_1 Let_def replicate_3

text \<open>
  Claim C2 fails on the code when the base is a \<open>Lab\<close> space and \<open>alpha01 = 1\<close>. The input
  is a \<open>Separation\<close> space over the \<open>Lab\<close> space of white point (1, 1, 1), as its
  constructor builds it, whose tint function yields the Lab colour (0, 0, 0), black. The
  composition of tint function and base, which \<open>getRgbItem\<close> computes, is the RGB colour
  (0, 0, 0), and so is the pixel \<open>getRgbBuffer\<close> writes with \<open>alpha01 = 0\<close>. With
  \<open>alpha01 = 1\<close> the buffer staged for the base holds that RGB colour, not the tinted
  components, and \<open>base.getRgbBuffer\<close> converts it once more, as if it were Lab
  samples: the pixel written is (0, 48, 133).
\<close>

theorem AlternateCS_getRgbBuffer_Lab_alpha:
  "new_LabCS (Some [jn 1, jn 1, jn 1]) None None =
     ([], Inr (LabCS \<lparr>XW = jn 1, YW = jn 1, ZW = jn 1, amin = Num (- 100), amax = jn 100,
            bmin = Num (- 100), bmax = jn 100, XB = jn 0, YB = jn 0, ZB = jn 0\<rparr>)) \<and>
   getRgbItem (new_AlternateCS 1 (LabCS \<lparr>XW = jn 1, YW = jn 1, ZW = jn 1, amin = Num (- 100), amax = jn 100,
            bmin = Num (- 100), bmax = jn 100, XB = jn 0, YB = jn 0, ZB = jn 0\<rparr>)
        (\<lambda>src srcOffset. [jn 0, jn 0, jn 0])) [jn 0] (jn 0) [7, 7, 7, 7] (jn 0) = ([0, 0, 0, 7], None) \<and>
   getRgbBuffer (new_AlternateCS 1 (LabCS \<lparr>XW = jn 1, YW = jn 1, ZW = jn 1, amin = Num (- 100), amax = jn 100,
            bmin = Num (- 100), bmax = jn 100, XB = jn 0, YB = jn 0, ZB = jn 0\<rparr>)
        (\<lambda>src srcOffset. [jn 0, jn 0, jn 0])) [0] (jn 0) 1 [7, 7, 7, 7] (jn 0) 8 0 = ([0, 0, 0, 7], None) \<and>
   getRgbBuffer (new_AlternateCS 1 (LabCS \<lparr>XW = jn 1, YW = jn 1, ZW = jn 1, amin = Num (- 100), amax = jn 100,
            bmin = Num (- 100), bmax = jn 100, XB = jn 0, YB = jn 0, ZB = jn 0\<rparr>)
        (\<lambda>src srcOffset. [jn 0, jn 0, jn 0])) [0] (jn 0) 1 [7, 7, 7, 7] (jn 0) 8 1 = ([0, 48, 133, 7], None)"
proof -
  have 1: "new_LabCS (Some [jn 1, jn 1, jn 1]) None None =
     ([], Inr (LabCS \<lparr>XW = jn 1, YW = jn 1, ZW = jn 1, amin = Num (- 100), amax = jn 100,
            bmin = Num (- 100), bmax = jn 100, XB = jn 0, YB = jn 0, ZB = jn 0\<rparr>))"
    by (simp add: new_LabCS_def el_def Let_def seq_def) (simp add: jn_def)
  have 2: "getRgbItem (new_AlternateCS 1 (LabCS \<lparr>XW = jn 1, YW = jn 1, ZW = jn 1, amin = Num (- 100), amax = jn 100,
            bmin = Num (- 100), bmax = jn 100, XB = jn 0, YB = jn 0, ZB = jn 0\<rparr>)
        (\<lambda>src srcOffset. [jn 0, jn 0, jn 0])) [jn 0] (jn 0) [7, 7, 7, 7] (jn 0) = ([0, 0, 0, 7], None)"
    by (simp add: alt_eval)
  have 3: "getRgbBuffer (new_AlternateCS 1 (LabCS \<lparr>XW = jn 1, YW = jn 1, ZW = jn 1, amin = Num (- 100), amax = jn 100,
            bmin = Num (- 100), bmax = jn 100, XB = jn 0, YB = jn 0, ZB = jn 0\<rparr>)
        (\<lambda>src srcOffset. [jn 0, jn 0, jn 0])) [0] (jn 0) 1 [7, 7, 7, 7] (jn 0) 8 0 = ([0, 0, 0, 7], None)"
    by (simp add: alt_eval)
  have 4: "getRgbBuffer (new_AlternateCS 1 (LabCS \<lparr>XW = jn 1, YW = jn 1, ZW = jn 1, amin = Num (- 100), amax = jn 100,
            bmin = Num (- 100), bmax = jn 100, XB = jn 0, YB = jn 0, ZB = jn 0\<rparr>)
        (\<lambda>src srcOffset. [jn 0, jn 0, jn 0])) [0] (jn 0) 1 [7, 7, 7, 7] (jn 0) 8 1 = ([0, 48, 133, 7], None)"
    by (simp add: alt_eval)
  show ?thesis using 1 2 3 4 by blast
qed

theorem AlternateCS_getRgbBuffer_Lab_alpha_witness:
  "fst (getRgbItem (new_AlternateCS 1 (LabCS \<lparr>XW = jn 1, YW = jn 1, ZW = jn 1, amin = Num (- 100), amax = jn 100,
            bmin = Num (- 100), bmax = jn 100, XB = jn 0, YB = jn 0, ZB = jn 0\<rparr>)
        (\<lambda>src srcOffset. [jn 0, jn 0, jn 0])) [jn 0] (jn 0) [7, 7, 7, 7] (jn 0)) ! 1 = 0 \<and>
   fst (getRgbBuffer (new_AlternateCS 1 (LabCS \<lparr>XW = jn 1, YW = jn 1, ZW = jn 1, amin = Num (- 100), amax = jn 100,
            bmin = Num (- 100), bmax = jn 100, XB = jn 0, YB = jn 0, ZB = jn 0\<rparr>)
        (\<lambda>src srcOffset. [jn 0, jn 0, jn 0])) [0] (jn 0) 1 [7, 7, 7, 7] (jn 0) 8 1) ! 1 = 48"
  using AlternateCS_getRgbBuffer_Lab_alpha by simp

lemma replicate_6: "replicate 6 x = [x, x, x, x, x, x]"
  by (simp add: eval_nat_numeral)

lemma replicate_9: "replicate 9 x = [x, x, x, x, x, x, x, x, x]"
  by (simp add: eval_nat_numeral)

text \<open>
  Claim C3 fails on the code for the same colour space: a raster of three pixels of one
  bit each, all 0, not resized, filled with \<open>alpha01 = 1\<close>. \<open>fillRgb\<close> takes the colour-map
  path, builds the map with \<open>alpha01 = 0\<close> and writes black pixels; the direct call of
  \<open>getRgbBuffer\<close> on the samples, with \<open>alpha01 = 1\<close>, writes the pixels (0, 48, 133).
\<close>

theorem fillRgb_colorMap_differs:
  "fillRgb (new_AlternateCS 1 (LabCS \<lparr>XW = jn 1, YW = jn 1, ZW = jn 1, amin = Num (- 100), amax = jn 100,
            bmin = Num (- 100), bmax = jn 100, XB = jn 0, YB = jn 0, ZB = jn 0\<rparr>)
        (\<lambda>src srcOffset. [jn 0, jn 0, jn 0]))
     [7, 7, 7, 7, 7, 7, 7, 7, 7, 7, 7, 7] 3 1 3 1 1 1 [0, 0, 0] 1 =
     ([0, 0, 0, 7, 0, 0, 0, 7, 0, 0, 0, 7], None) \<and>
   getRgbBuffer (new_AlternateCS 1 (LabCS \<lparr>XW = jn 1, YW = jn 1, ZW = jn 1, amin = Num (- 100), amax = jn 100,
            bmin = Num (- 100), bmax = jn 100, XB = jn 0, YB = jn 0, ZB = jn 0\<rparr>)
        (\<lambda>src srcOffset. [jn 0, jn 0, jn 0]))
     [0, 0, 0] (jn 0) (3 * 1) [7, 7, 7, 7, 7, 7, 7, 7, 7, 7, 7, 7] (jn 0) 1 1 =
     ([0, 48, 133, 7, 0, 48, 133, 7, 0, 48, 133, 7], None)"
proof -
  have 2: "fillRgb (new_AlternateCS 1 (LabCS \<lparr>XW = jn 1, YW = jn 1, ZW = jn 1, amin = Num (- 100), amax = jn 100,
            bmin = Num (- 100), bmax = jn 100, XB = jn 0, YB = jn 0, ZB = jn 0\<rparr>)
        (\<lambda>src srcOffset. [jn 0, jn 0, jn 0]))
     [7, 7, 7, 7, 7, 7, 7, 7, 7, 7, 7, 7] 3 1 3 1 1 1 [0, 0, 0] 1 =
     ([0, 0, 0, 7, 0, 0, 0, 7, 0, 0, 0, 7], None)"
    by (simp add: fillRgb_def alt_eval shl1_def replicate_6 fillRgb_map_pixel_def
        numeral_2_eq_2 numeral_3_eq_3)
  have 3: "getRgbBuffer (new_AlternateCS 1 (LabCS \<lparr>XW = jn 1, YW = jn 1, ZW = jn 1, amin = Num (- 100), amax = jn 100,
            bmin = Num (- 100), bmax = jn 100, XB = jn 0, YB = jn 0, ZB = jn 0\<rparr>)
        (\<lambda>src srcOffset. [jn 0, jn 0, jn 0]))
     [0, 0, 0] (jn 0) (3 * 1) [7, 7, 7, 7, 7, 7, 7, 7, 7, 7, 7, 7] (jn 0) 1 1 =
     ([0, 48, 133, 7, 0, 48, 133, 7, 0, 48, 133, 7], None)"
    by (simp add: alt_eval numeral_3_eq_3 replicate_9)
  show ?thesis using 2 3 by blast
qed

theorem fillRgb_colorMap_differs_witness:
  "fst (fillRgb (new_AlternateCS 1 (LabCS \<lparr>XW = jn 1, YW = jn 1, ZW = jn 1, amin = Num (- 100), amax = jn 100,
            bmin = Num (- 100), bmax = jn 100, XB = jn 0, YB = jn 0, ZB = jn 0\<rparr>)
        (\<lambda>src srcOffset. [jn 0, jn 0, jn 0]))
     [7, 7, 7, 7, 7, 7, 7, 7, 7, 7, 7, 7] 3 1 3 1 1 1 [0, 0, 0] 1) ! 1 = 0 \<and>
   fst (getRgbBuffer (new_AlternateCS 1 (LabCS \<lparr>XW = jn 1, YW = jn 1, ZW = jn 1, amin = Num (- 100), amax = jn 100,
            bmin = Num (- 100), bmax = jn 100, XB = jn 0, YB = jn 0, ZB = jn 0\<rparr>)
        (\<lambda>src srcOffset. [jn 0, jn 0, jn 0]))
     [0, 0, 0] (jn 0) (3 * 1) [7, 7, 7, 7, 7, 7, 7, 7, 7, 7, 7, 7] (jn 0) 1 1) ! 1 = 48"
  using fillRgb_colorMap_differs by simp

end
